theory Spec2Isabelle
  imports Main "HOL-Library.Sublist"
begin

section \<open>Python strings\<close>

text \<open>
  A Python \<open>str\<close> is modelled as a \<open>string\<close> whose characters are the code points
  below 256. \<open>is_space\<close> is \<open>str.isspace\<close> on those code points, \<open>lower\<close> is
  \<open>str.lower\<close>, \<open>strip\<close> is \<open>str.strip()\<close> without argument and \<open>py_in\<close> is the
  substring test \<open>sub in s\<close>.
\<close>

definition is_space :: "char \<Rightarrow> bool" where
  "is_space c \<longleftrightarrow> c \<in> set [CHR 0x09, CHR 0x0A, CHR 0x0B, CHR 0x0C, CHR 0x0D,
     CHR 0x1C, CHR 0x1D, CHR 0x1E, CHR 0x1F, CHR 0x20, CHR 0x85, CHR 0xA0]"

definition lower_char :: "char \<Rightarrow> char" where
  "lower_char c =
     (let n = (of_char c :: nat)
      in if (65 \<le> n \<and> n \<le> 90) \<or> (192 \<le> n \<and> n \<le> 222 \<and> n \<noteq> 215)
         then char_of (n + 32) else c)"

definition lower :: "string \<Rightarrow> string" where
  "lower s = map lower_char s"

definition lstrip :: "string \<Rightarrow> string" where
  "lstrip s = dropWhile is_space s"

definition rstrip :: "string \<Rightarrow> string" where
  "rstrip s = rev (dropWhile is_space (rev s))"

definition strip :: "string \<Rightarrow> string" where
  "strip s = rstrip (lstrip s)"

fun py_in :: "string \<Rightarrow> string \<Rightarrow> bool" where
  "py_in sub [] = (sub = [])"
| "py_in sub (c # cs) = (prefix sub (c # cs) \<or> py_in sub cs)"

section \<open>The parsed document\<close>

text \<open>
  The tree that \<open>BeautifulSoup(response.text, 'html.parser')\<close> returns. A node is a text
  node or a tag with its name, its attributes in document order and its children. The
  value of a multi-valued attribute (\<open>class\<close>) is the list of its whitespace-separated
  tokens, any other value is one string.
\<close>

datatype attr_value = Single string | Multi "string list"

datatype node =
    NavigableString string
  | Tag string "(string \<times> attr_value) list" "node list"

text \<open>All nodes below a node, in document order (the order of \<open>Tag.descendants\<close>).\<close>

fun descendants :: "node \<Rightarrow> node list" where
  "descendants (NavigableString s) = []"
| "descendants (Tag nm as cs) = concat (map (\<lambda>c. c # descendants c) cs)"

text \<open>\<open>tag.text\<close>: the text nodes below the tag, concatenated.\<close>

fun get_text :: "node \<Rightarrow> string" where
  "get_text (NavigableString s) = s"
| "get_text (Tag nm as cs) = concat (map get_text cs)"

text \<open>
  \<open>str(tag)\<close>: the markup of the node, with the name, every attribute and every
  descendant. The characters \<open>&\<close>, \<open><\<close> and \<open>>\<close> of a text or of an attribute value are
  written as entities. An attribute value stands between double quotes, or between single
  quotes when it holds a double quote and no single one. A void element without
  children is written \<open><br/>\<close>. Comments and processing instructions are not part of
  the model.
\<close>

definition substitute_xml :: "string \<Rightarrow> string" where
  "substitute_xml s = concat (map (\<lambda>c.
     if c = CHR ''&'' then ''&amp;''
     else if c = CHR ''<'' then ''&lt;''
     else if c = CHR ''>'' then ''&gt;''
     else [c]) s)"

definition quoted_attribute_value :: "string \<Rightarrow> string" where
  "quoted_attribute_value v =
     (if CHR 0x22 \<in> set v then
        if CHR 0x27 \<in> set v
        then [CHR 0x22] @ concat (map (\<lambda>c. if c = CHR 0x22 then ''&quot;'' else [c]) v)
               @ [CHR 0x22]
        else [CHR 0x27] @ v @ [CHR 0x27]
      else [CHR 0x22] @ v @ [CHR 0x22])"

fun join_space :: "string list \<Rightarrow> string" where
  "join_space [] = []"
| "join_space [w] = w"
| "join_space (w # v # ws) = w @ '' '' @ join_space (v # ws)"

fun attr_string :: "attr_value \<Rightarrow> string" where
  "attr_string (Single s) = s"
| "attr_string (Multi ws) = join_space ws"

definition decode_attr :: "string \<times> attr_value \<Rightarrow> string" where
  "decode_attr kv =
     '' '' @ fst kv @ ''='' @ quoted_attribute_value (substitute_xml (attr_string (snd kv)))"

definition empty_element_tags :: "string list" where
  "empty_element_tags =
     [''area'', ''base'', ''br'', ''col'', ''embed'', ''hr'', ''img'', ''input'', ''keygen'',
      ''link'', ''menuitem'', ''meta'', ''param'', ''source'', ''track'', ''wbr'',
      ''basefont'', ''bgsound'', ''command'', ''frame'', ''image'', ''isindex'', ''nextid'',
      ''spacer'']"

fun decode :: "node \<Rightarrow> string" where
  "decode (NavigableString s) = substitute_xml s"
| "decode (Tag nm as cs) =
     (if cs = [] \<and> nm \<in> set empty_element_tags
      then ''<'' @ nm @ concat (map decode_attr as) @ ''/>''
      else ''<'' @ nm @ concat (map decode_attr as) @ ''>''
             @ concat (map decode cs) @ ''</'' @ nm @ ''>'')"

text \<open>
  \<open>find_all(name, class_=c)\<close> keeps the descendants that are tags of that name with \<open>c\<close>
  among their classes; \<open>find\<close> is its first result, or \<open>None\<close>.
\<close>

fun has_class :: "string \<Rightarrow> (string \<times> attr_value) list \<Rightarrow> bool" where
  "has_class c as =
     (case map_of as ''class'' of
        None \<Rightarrow> False
      | Some (Single s) \<Rightarrow> s = c
      | Some (Multi ws) \<Rightarrow> c \<in> set ws)"

fun matches :: "string \<Rightarrow> string \<Rightarrow> node \<Rightarrow> bool" where
  "matches nm c (NavigableString s) = False"
| "matches nm c (Tag nm' as cs) = (nm' = nm \<and> has_class c as)"

definition find_all :: "string \<Rightarrow> string \<Rightarrow> node \<Rightarrow> node list" where
  "find_all nm c n = filter (matches nm c) (descendants n)"

definition find_first :: "string \<Rightarrow> string \<Rightarrow> node \<Rightarrow> node option" where
  "find_first nm c n = (case find_all nm c n of [] \<Rightarrow> None | t # _ \<Rightarrow> Some t)"

section \<open>Exceptions, configuration and the outside world\<close>

text \<open>
  The exceptions the program can meet, each with the message that \<open>str(e)\<close> gives.
  A result of type \<open>py_exception + 'a\<close> is \<open>Inl e\<close> when \<open>e\<close> is raised.
\<close>

datatype py_exception =
    KeyError string
  | RequestException string
  | HTTPError string
  | ParserRejectedMarkup string
  | ResourceUnavailable string
  | Exception string

fun str_exc :: "py_exception \<Rightarrow> string" where
  "str_exc (KeyError k) = [CHR 0x27] @ k @ [CHR 0x27]"
| "str_exc (RequestException m) = m"
| "str_exc (HTTPError m) = m"
| "str_exc (ParserRejectedMarkup m) = m"
| "str_exc (ResourceUnavailable m) = m"
| "str_exc (Exception m) = m"

text \<open>
  \<open>self.config\<close> is the dictionary of dictionaries read from \<open>config.yml\<close>;
  \<open>config_get cfg a b\<close> is \<open>self.config[a][b]\<close>.
\<close>

type_synonym config = "string \<rightharpoonup> (string \<rightharpoonup> string)"

definition config_get :: "config \<Rightarrow> string \<Rightarrow> string \<Rightarrow> py_exception + string" where
  "config_get cfg a b =
     (case cfg a of
        None \<Rightarrow> Inl (KeyError a)
      | Some sect \<Rightarrow> (case sect b of None \<Rightarrow> Inl (KeyError b) | Some v \<Rightarrow> Inr v))"

text \<open>
  The answer to the HTTP request. \<open>error_msg\<close> is the message that
  \<open>raise_for_status\<close> composes from the status, the reason and the URL.
\<close>

record response =
  status_code :: nat
  response_text :: string
  error_msg :: string

definition raise_for_status :: "response \<Rightarrow> py_exception + unit" where
  "raise_for_status r =
     (if 400 \<le> status_code r \<and> status_code r < 600 then Inl (HTTPError (error_msg r))
      else Inr ())"

section \<open>News Fetcher\<close>

record news_item =
  date :: "string option"
  time :: string
  currency :: string
  event :: string
  forecast :: string
  previous :: string

text \<open>\<open>cell.text.strip() if cell else 'N/A'\<close> for \<open>cell = row.find('td', class_=c)\<close>.\<close>

definition cell_text :: "string \<Rightarrow> node \<Rightarrow> string" where
  "cell_text c row =
     (case find_first ''td'' c row of None \<Rightarrow> ''N/A'' | Some cell \<Rightarrow> strip (get_text cell))"

text \<open>The body of the loop over \<open>calendar_rows\<close>, lines 48 to 68.\<close>

fun scan_rows :: "string option \<Rightarrow> news_item list \<Rightarrow> node list \<Rightarrow> news_item list" where
  "scan_rows current_date news_items [] = news_items"
| "scan_rows current_date news_items (row # rows) =
     (case find_first ''td'' ''impact'' row of
        None \<Rightarrow> scan_rows current_date news_items rows
      | Some impact \<Rightarrow>
          if py_in ''high'' (lower (decode impact)) then
            let current_date' =
                  (case find_first ''td'' ''calendar__date'' row of
                     None \<Rightarrow> current_date
                   | Some date_cell \<Rightarrow>
                       if strip (get_text date_cell) \<noteq> [] then Some (strip (get_text date_cell))
                       else current_date)
            in scan_rows current_date'
                 (news_items @
                    [\<lparr>date = current_date',
                      time = cell_text ''calendar__time'' row,
                      currency = cell_text ''calendar__currency'' row,
                      event = cell_text ''calendar__event'' row,
                      forecast = cell_text ''calendar__forecast'' row,
                      previous = cell_text ''calendar__previous'' row\<rparr>])
                 rows
          else scan_rows current_date news_items rows)"

text \<open>Lines 43 to 70: the rows of the document, scanned from no date and no item.\<close>

definition parse_calendar :: "node \<Rightarrow> news_item list" where
  "parse_calendar soup = scan_rows None [] (find_all ''tr'' ''calendar_row'' soup)"

text \<open>
  \<open>get_high_impact_news\<close>. \<open>requests_get url user_agent\<close> and \<open>BeautifulSoup markup\<close>
  stand for the two library calls. The result is \<open>Inl e\<close> when \<open>e\<close> leaves the method,
  and otherwise the lines printed and the list returned.
\<close>

definition fetch_and_parse ::
  "(string \<Rightarrow> string \<Rightarrow> py_exception + response) \<Rightarrow> (string \<Rightarrow> py_exception + node)
     \<Rightarrow> config \<Rightarrow> string \<Rightarrow> py_exception + news_item list" where
  "fetch_and_parse requests_get BeautifulSoup cfg user_agent =
     (case config_get cfg ''forex_factory'' ''base_url'' of
        Inl e \<Rightarrow> Inl e
      | Inr url \<Rightarrow>
          (case requests_get url user_agent of
             Inl e \<Rightarrow> Inl e
           | Inr resp \<Rightarrow>
               (case raise_for_status resp of
                  Inl e \<Rightarrow> Inl e
                | Inr _ \<Rightarrow>
                    (case BeautifulSoup (response_text resp) of
                       Inl e \<Rightarrow> Inl e
                     | Inr soup \<Rightarrow> Inr (parse_calendar soup)))))"

definition get_high_impact_news ::
  "(string \<Rightarrow> string \<Rightarrow> py_exception + response) \<Rightarrow> (string \<Rightarrow> py_exception + node)
     \<Rightarrow> config \<Rightarrow> py_exception + (string list \<times> news_item list)" where
  "get_high_impact_news requests_get BeautifulSoup cfg =
     (case config_get cfg ''forex_factory'' ''user_agent'' of
        Inl e \<Rightarrow> Inl e
      | Inr user_agent \<Rightarrow>
          (case fetch_and_parse requests_get BeautifulSoup cfg user_agent of
             Inl e \<Rightarrow> Inr ([''Error fetching forex data: '' @ str_exc e], [])
           | Inr news_items \<Rightarrow> Inr ([], news_items)))"

section \<open>Comment Formatter\<close>

text \<open>
  \<open>datetime.now()\<close> is an input of the formatter. \<open>strftime\<close> is
  \<open>strftime('%Y-%m-%d %H:%M:%S')\<close>: the year on four digits, every other field on two.
\<close>

record datetime =
  year :: nat
  month :: nat
  day :: nat
  hour :: nat
  minute :: nat
  second :: nat

definition digit :: "nat \<Rightarrow> char" where
  "digit n = char_of (48 + n mod 10)"

definition zero_pad2 :: "nat \<Rightarrow> string" where
  "zero_pad2 n = [digit (n div 10), digit n]"

definition zero_pad4 :: "nat \<Rightarrow> string" where
  "zero_pad4 n = [digit (n div 1000), digit (n div 100), digit (n div 10), digit n]"

definition strftime :: "datetime \<Rightarrow> string" where
  "strftime d =
     zero_pad4 (year d) @ ''-'' @ zero_pad2 (month d) @ ''-'' @ zero_pad2 (day d) @ '' ''
       @ zero_pad2 (hour d) @ '':'' @ zero_pad2 (minute d) @ '':'' @ zero_pad2 (second d)"

text \<open>\<open>f"{item['date']}"\<close>: the string itself, and \<open>None\<close> is written \<open>None\<close>.\<close>

definition str_date :: "string option \<Rightarrow> string" where
  "str_date d = (case d of None \<Rightarrow> ''None'' | Some s \<Rightarrow> s)"

definition newline :: string where
  "newline = [CHR 0x0A]"

text \<open>The loop of lines 85 to 87, which appends two pieces to \<open>comment\<close> for each item.\<close>

fun append_items :: "string \<Rightarrow> news_item list \<Rightarrow> string" where
  "append_items comment [] = comment"
| "append_items comment (item # rest) =
     append_items
       ((comment @ (''| '' @ str_date (date item) @ '' | '' @ time item @ '' | ''
                      @ currency item @ '' | ''))
          @ (event item @ '' | '' @ forecast item @ '' | '' @ previous item @ '' |'' @ newline))
       rest"

definition format_news_comment :: "datetime \<Rightarrow> news_item list \<Rightarrow> string" where
  "format_news_comment now news_items =
     (if news_items = [] then ''No high-impact news events found.''
      else append_items
             (''# High Impact Forex News Events'' @ newline @ newline
                @ ''| Date | Time | Currency | Event | Forecast | Previous |'' @ newline
                @ ''|------|------|----------|--------|----------|----------|'' @ newline)
             news_items
           @ newline @ ''Last updated: '' @ strftime now)"

section \<open>Board Updater\<close>

text \<open>
  The objects of the board service and the four calls the updater makes on them, each of
  which may raise. An effect is a line printed or a comment posted on a card.
\<close>

record board =
  board_id :: string

record trello_list =
  list_id :: string
  list_name :: string

record card =
  card_id :: string
  card_name :: string

record trello_client =
  get_board :: "string \<Rightarrow> py_exception + board"
  list_lists :: "board \<Rightarrow> py_exception + trello_list list"
  list_cards :: "trello_list \<Rightarrow> py_exception + card list"
  comment :: "card \<Rightarrow> string \<Rightarrow> py_exception + unit"

datatype effect = Print string | Comment card string

text \<open>
  The two search loops, lines 100 to 103 and 110 to 113. Each iteration reads the
  configured name again, so the lookup can raise inside the loop.
\<close>

fun find_list :: "config \<Rightarrow> trello_list list \<Rightarrow> py_exception + trello_list option" where
  "find_list cfg [] = Inr None"
| "find_list cfg (lst # rest) =
     (case config_get cfg ''trello'' ''list_name'' of
        Inl e \<Rightarrow> Inl e
      | Inr n \<Rightarrow> if list_name lst = n then Inr (Some lst) else find_list cfg rest)"

fun find_card :: "config \<Rightarrow> card list \<Rightarrow> py_exception + card option" where
  "find_card cfg [] = Inr None"
| "find_card cfg (c # rest) =
     (case config_get cfg ''trello'' ''card_name'' of
        Inl e \<Rightarrow> Inl e
      | Inr n \<Rightarrow> if card_name c = n then Inr (Some c) else find_card cfg rest)"

definition not_found :: "string \<Rightarrow> string \<Rightarrow> string" where
  "not_found kind n = kind @ '' '' @ [CHR 0x27] @ n @ [CHR 0x27] @ '' not found''"

text \<open>The body of the \<open>try\<close>, lines 95 to 120.\<close>

definition update_body :: "trello_client \<Rightarrow> config \<Rightarrow> string \<Rightarrow> py_exception + effect list" where
  "update_body trello cfg comment_text =
     (case config_get cfg ''trello'' ''board_id'' of
        Inl e \<Rightarrow> Inl e
      | Inr bid \<Rightarrow>
     (case get_board trello bid of
        Inl e \<Rightarrow> Inl e
      | Inr brd \<Rightarrow>
     (case list_lists trello brd of
        Inl e \<Rightarrow> Inl e
      | Inr lsts \<Rightarrow>
     (case find_list cfg lsts of
        Inl e \<Rightarrow> Inl e
      | Inr None \<Rightarrow>
          (case config_get cfg ''trello'' ''list_name'' of
             Inl e \<Rightarrow> Inl e
           | Inr n \<Rightarrow> Inl (Exception (not_found ''List'' n)))
      | Inr (Some lst) \<Rightarrow>
     (case list_cards trello lst of
        Inl e \<Rightarrow> Inl e
      | Inr cards \<Rightarrow>
     (case find_card cfg cards of
        Inl e \<Rightarrow> Inl e
      | Inr None \<Rightarrow>
          (case config_get cfg ''trello'' ''card_name'' of
             Inl e \<Rightarrow> Inl e
           | Inr n \<Rightarrow> Inl (Exception (not_found ''Card'' n)))
      | Inr (Some c) \<Rightarrow>
     (case comment trello c comment_text of
        Inl e \<Rightarrow> Inl e
      | Inr _ \<Rightarrow>
          Inr [Comment c comment_text,
               Print ''Successfully updated Trello card with forex news''])))))))"

text \<open>
  \<open>update_trello_card\<close>: \<open>Inl e\<close> would be an exception that leaves the method, \<open>Inr\<close>
  holds the effects of a call that returns.
\<close>

definition update_trello_card ::
  "trello_client \<Rightarrow> config \<Rightarrow> string \<Rightarrow> py_exception + effect list" where
  "update_trello_card trello cfg comment_text =
     (case update_body trello cfg comment_text of
        Inl e \<Rightarrow> Inr [Print (''Error updating Trello card: '' @ str_exc e)]
      | Inr effects \<Rightarrow> Inr effects)"

text \<open>Lines 127 and 128 of \<open>main\<close>: fetch, then format.\<close>

definition fetch_then_format ::
  "(string \<Rightarrow> string \<Rightarrow> py_exception + response) \<Rightarrow> (string \<Rightarrow> py_exception + node)
     \<Rightarrow> config \<Rightarrow> datetime \<Rightarrow> py_exception + string" where
  "fetch_then_format requests_get BeautifulSoup cfg now =
     (case get_high_impact_news requests_get BeautifulSoup cfg of
        Inl e \<Rightarrow> Inl e
      | Inr (printed, news_items) \<Rightarrow> Inr (format_news_comment now news_items))"

section \<open>Vocabulary of the properties\<close>

text \<open>The test of lines 49 and 50: the row has an impact cell whose markup says "high".\<close>

definition is_high_impact :: "node \<Rightarrow> bool" where
  "is_high_impact row =
     (case find_first ''td'' ''impact'' row of
        None \<Rightarrow> False
      | Some impact \<Rightarrow> py_in ''high'' (lower (decode impact)))"

text \<open>The same test on the text of the impact cell instead of its markup.\<close>

definition impact_text_high :: "node \<Rightarrow> bool" where
  "impact_text_high row =
     (case find_first ''td'' ''impact'' row of
        None \<Rightarrow> False
      | Some impact \<Rightarrow> py_in ''high'' (lower (get_text impact)))"

text \<open>The date a row declares itself: the stripped text of its date cell, when not empty.\<close>

definition own_date :: "node \<Rightarrow> string option" where
  "own_date row =
     (case find_first ''td'' ''calendar__date'' row of
        None \<Rightarrow> None
      | Some date_cell \<Rightarrow>
          if strip (get_text date_cell) \<noteq> [] then Some (strip (get_text date_cell)) else None)"

text \<open>
  The date declared by the last row of \<open>rows\<close> that declares one, \<open>None\<close> when no row
  does.
\<close>

definition last_declared :: "node list \<Rightarrow> string option" where
  "last_declared rows =
     (case filter (\<lambda>r. own_date r \<noteq> None) (rev rows) of
        [] \<Rightarrow> None
      | r # _ \<Rightarrow> own_date r)"

text \<open>
  The pieces of one iteration on a high-impact row: the new value of \<open>current_date\<close>,
  and the item appended with a given date. \<open>date_after\<close> is \<open>current_date\<close> after a
  run of rows.
\<close>

definition carry :: "string option \<Rightarrow> node \<Rightarrow> string option" where
  "carry current_date row = (case own_date row of None \<Rightarrow> current_date | Some d \<Rightarrow> Some d)"

definition make_item :: "string option \<Rightarrow> node \<Rightarrow> news_item" where
  "make_item d row =
     \<lparr>date = d,
      time = cell_text ''calendar__time'' row,
      currency = cell_text ''calendar__currency'' row,
      event = cell_text ''calendar__event'' row,
      forecast = cell_text ''calendar__forecast'' row,
      previous = cell_text ''calendar__previous'' row\<rparr>"

fun date_after :: "string option \<Rightarrow> node list \<Rightarrow> string option" where
  "date_after current_date [] = current_date"
| "date_after current_date (row # rows) =
     date_after (if is_high_impact row then carry current_date row else current_date) rows"

text \<open>The five columns read by class, each with the field it fills.\<close>

definition columns :: "(string \<times> (news_item \<Rightarrow> string)) list" where
  "columns =
     [(''calendar__time'', time), (''calendar__currency'', currency),
      (''calendar__event'', event), (''calendar__forecast'', forecast),
      (''calendar__previous'', previous)]"

text \<open>A string that \<open>strip\<close> would leave alone: no white space at either end.\<close>

definition stripped :: "string \<Rightarrow> bool" where
  "stripped s \<longleftrightarrow> s = [] \<or> (\<not> is_space (hd s) \<and> \<not> is_space (last s))"

text \<open>One line of the rendered table, without its line break.\<close>

definition table_row :: "news_item \<Rightarrow> string" where
  "table_row item =
     ''| '' @ str_date (date item) @ '' | '' @ time item @ '' | '' @ currency item @ '' | ''
       @ event item @ '' | '' @ forecast item @ '' | '' @ previous item @ '' |''"

text \<open>
  The shape \<open>YYYY-MM-DD HH:MM:SS\<close>, and the values of \<open>datetime.now()\<close> whose year
  has four digits: on them \<open>strftime\<close> above is the library's on every platform.
\<close>

definition is_digit :: "char \<Rightarrow> bool" where
  "is_digit c \<longleftrightarrow> c \<in> set ''0123456789''"

definition ymd_hms_shape :: "string \<Rightarrow> bool" where
  "ymd_hms_shape s \<longleftrightarrow>
     length s = 19
     \<and> list_all is_digit (map (nth s) [0, 1, 2, 3, 5, 6, 8, 9, 11, 12, 14, 15, 17, 18])
     \<and> map (nth s) [4, 7, 10, 13, 16] = ''-- ::''"

definition valid_datetime :: "datetime \<Rightarrow> bool" where
  "valid_datetime d \<longleftrightarrow>
     1000 \<le> year d \<and> year d \<le> 9999 \<and> 1 \<le> month d \<and> month d \<le> 12
     \<and> 1 \<le> day d \<and> day d \<le> 31 \<and> hour d < 24 \<and> minute d < 60 \<and> second d < 60"

text \<open>\<open>s.split('\n')\<close>: the lines of a string.\<close>

fun split_lines :: "string \<Rightarrow> string list" where
  "split_lines [] = [[]]"
| "split_lines (c # cs) =
     (if c = CHR 0x0A then [] # split_lines cs
      else (case split_lines cs of [] \<Rightarrow> [[c]] | l # ls \<Rightarrow> (c # l) # ls))"

definition single_line :: "news_item \<Rightarrow> bool" where
  "single_line item \<longleftrightarrow> CHR 0x0A \<notin> set (table_row item)"

section \<open>Example inputs\<close>

definition td :: "string \<Rightarrow> string \<Rightarrow> node" where
  "td c s = Tag ''td'' [(''class'', Multi [c])] [NavigableString s]"

definition calendar_row :: "node list \<Rightarrow> node" where
  "calendar_row cells = Tag ''tr'' [(''class'', Multi [''calendar_row''])] cells"

definition document :: "node list \<Rightarrow> node" where
  "document rows = Tag ''[document]'' [] [Tag ''table'' [] rows]"

text \<open>An impact cell that says "High" in an attribute of its icon and has no text.\<close>

definition impact_high :: node where
  "impact_high =
     Tag ''td'' [(''class'', Multi [''impact''])]
       [Tag ''span'' [(''title'', Single ''High Impact Expected'')] []]"

definition impact_low :: node where
  "impact_low =
     Tag ''td'' [(''class'', Multi [''impact''])]
       [Tag ''span'' [(''title'', Single ''Low Impact Expected'')] []]"

text \<open>The row of the payrolls scenario: every cell but the forecast.\<close>

definition payrolls_row :: node where
  "payrolls_row =
     calendar_row
       [td ''calendar__date'' ''Jan 5'', td ''calendar__time'' ''8:30am'',
        td ''calendar__currency'' ''USD'', impact_high,
        td ''calendar__event'' ''Non-Farm Payrolls'', td ''calendar__previous'' ''180K'']"

text \<open>A high-impact row under the same date header: no date cell, an empty forecast.\<close>

definition undated_row :: node where
  "undated_row =
     calendar_row
       [td ''calendar__time'' '' 10:00am '', td ''calendar__currency'' ''USD'', impact_high,
        td ''calendar__event'' ''ISM Services PMI'', td ''calendar__forecast'' ''  '',
        td ''calendar__previous'' ''52.1'']"

text \<open>A low-impact row that opens a new day.\<close>

definition low_dated_row :: node where
  "low_dated_row =
     calendar_row
       [td ''calendar__date'' ''Jan 6'', td ''calendar__time'' ''2:00am'',
        td ''calendar__currency'' ''EUR'', impact_low,
        td ''calendar__event'' ''German Factory Orders'']"

definition example_config :: config where
  "example_config =
     [''forex_factory'' \<mapsto>
        [''base_url'' \<mapsto> ''https://www.forexfactory.com/calendar'',
         ''user_agent'' \<mapsto> ''Mozilla/5.0''],
      ''trello'' \<mapsto>
        [''board_id'' \<mapsto> ''b1'', ''list_name'' \<mapsto> ''News'', ''card_name'' \<mapsto> ''Forex'']]"

definition example_now :: datetime where
  "example_now = \<lparr>year = 2024, month = 1, day = 5, hour = 9, minute = 3, second = 7\<rparr>"

text \<open>Answers of the outside world: to the request, and to the parsing of the page.\<close>

definition ok_response :: response where
  "ok_response = \<lparr>status_code = 200, response_text = ''<table></table>'', error_msg = []\<rparr>"

definition server_error_response :: response where
  "server_error_response =
     \<lparr>status_code = 500, response_text = [],
      error_msg = ''500 Server Error: Internal Server Error for url: https://www.forexfactory.com/calendar''\<rparr>"

definition requests_ok :: "string \<Rightarrow> string \<Rightarrow> py_exception + response" where
  "requests_ok url user_agent = Inr ok_response"

definition requests_server_error :: "string \<Rightarrow> string \<Rightarrow> py_exception + response" where
  "requests_server_error url user_agent = Inr server_error_response"

definition requests_refused :: "string \<Rightarrow> string \<Rightarrow> py_exception + response" where
  "requests_refused url user_agent = Inl (RequestException ''Connection refused'')"

definition soup_quiet_day :: "string \<Rightarrow> py_exception + node" where
  "soup_quiet_day markup = Inr (document [low_dated_row])"

definition soup_rejected :: "string \<Rightarrow> py_exception + node" where
  "soup_rejected markup = Inl (ParserRejectedMarkup ''markup rejected'')"

text \<open>A board with three lists, two of them named alike, and the cards of the first of these.\<close>

definition example_board :: board where
  "example_board = \<lparr>board_id = ''b1''\<rparr>"

definition inbox_list :: trello_list where
  "inbox_list = \<lparr>list_id = ''l1'', list_name = ''Inbox''\<rparr>"

definition news_list :: trello_list where
  "news_list = \<lparr>list_id = ''l2'', list_name = ''News''\<rparr>"

definition second_news_list :: trello_list where
  "second_news_list = \<lparr>list_id = ''l3'', list_name = ''News''\<rparr>"

definition crypto_card :: card where
  "crypto_card = \<lparr>card_id = ''c1'', card_name = ''Crypto''\<rparr>"

definition forex_card :: card where
  "forex_card = \<lparr>card_id = ''c2'', card_name = ''Forex''\<rparr>"

definition second_forex_card :: card where
  "second_forex_card = \<lparr>card_id = ''c3'', card_name = ''Forex''\<rparr>"

definition board_found :: "string \<Rightarrow> py_exception + board" where
  "board_found bid =
     (if bid = ''b1'' then Inr example_board else Inl (ResourceUnavailable ''board not found''))"

definition board_unavailable :: "string \<Rightarrow> py_exception + board" where
  "board_unavailable bid = Inl (ResourceUnavailable ''401 unauthorized'')"

definition lists_of_board :: "board \<Rightarrow> py_exception + trello_list list" where
  "lists_of_board b = Inr [inbox_list, news_list, second_news_list]"

definition lists_without_news :: "board \<Rightarrow> py_exception + trello_list list" where
  "lists_without_news b = Inr [inbox_list]"

definition cards_of_list :: "trello_list \<Rightarrow> py_exception + card list" where
  "cards_of_list l =
     (if list_id l = ''l2'' then Inr [crypto_card, forex_card, second_forex_card] else Inr [])"

definition cards_without_forex :: "trello_list \<Rightarrow> py_exception + card list" where
  "cards_without_forex l = Inr [crypto_card]"

definition comment_accepted :: "card \<Rightarrow> string \<Rightarrow> py_exception + unit" where
  "comment_accepted c t = Inr ()"

definition comment_refused :: "card \<Rightarrow> string \<Rightarrow> py_exception + unit" where
  "comment_refused c t = Inl (ResourceUnavailable ''503 service unavailable'')"

definition example_trello :: trello_client where
  "example_trello =
     \<lparr>get_board = board_found, list_lists = lists_of_board,
      list_cards = cards_of_list, comment = comment_accepted\<rparr>"

definition trello_without_board :: trello_client where
  "trello_without_board =
     \<lparr>get_board = board_unavailable, list_lists = lists_of_board,
      list_cards = cards_of_list, comment = comment_accepted\<rparr>"

definition trello_without_list :: trello_client where
  "trello_without_list =
     \<lparr>get_board = board_found, list_lists = lists_without_news,
      list_cards = cards_of_list, comment = comment_accepted\<rparr>"

definition trello_without_card :: trello_client where
  "trello_without_card =
     \<lparr>get_board = board_found, list_lists = lists_of_board,
      list_cards = cards_without_forex, comment = comment_accepted\<rparr>"

definition trello_refusing :: trello_client where
  "trello_refusing =
     \<lparr>get_board = board_found, list_lists = lists_of_board,
      list_cards = cards_of_list, comment = comment_refused\<rparr>"

text \<open>
  A configuration without the \<open>user_agent\<close> setting, and an answer with status 304,
  which \<open>raise_for_status\<close> lets pass, for a page that holds the payrolls row.
\<close>

definition config_without_agent :: config where
  "config_without_agent =
     [''forex_factory'' \<mapsto> [''base_url'' \<mapsto> ''https://www.forexfactory.com/calendar''],
      ''trello'' \<mapsto>
        [''board_id'' \<mapsto> ''b1'', ''list_name'' \<mapsto> ''News'', ''card_name'' \<mapsto> ''Forex'']]"

definition not_modified_response :: response where
  "not_modified_response =
     \<lparr>status_code = 304, response_text = ''<table></table>'', error_msg = []\<rparr>"

definition requests_not_modified :: "string \<Rightarrow> string \<Rightarrow> py_exception + response" where
  "requests_not_modified url user_agent = Inr not_modified_response"

definition soup_payrolls :: "string \<Rightarrow> py_exception + node" where
  "soup_payrolls markup = Inr (document [payrolls_row])"

section \<open>The scan of the rows\<close>

text \<open>
  One iteration either skips the row or, on a high-impact row, updates the date and
  appends one item. The accumulator only grows at its end, so the scan of a list of rows
  is the scan of a prefix followed by the scan of the rest from the date reached.
\<close>

lemma scan_rows_Cons:
  "scan_rows cur acc (row # rows) =
     (if is_high_impact row
      then scan_rows (carry cur row) (acc @ [make_item (carry cur row) row]) rows
      else scan_rows cur acc rows)"
  by (simp add: is_high_impact_def carry_def own_date_def make_item_def Let_def
           split: option.split)

lemma scan_rows_acc: "scan_rows cur acc rows = acc @ scan_rows cur [] rows"
proof (induction rows arbitrary: cur acc)
  case Nil
  show ?case by simp
next
  case (Cons row rows)
  let ?d = "carry cur row"
  let ?i = "make_item ?d row"
  show ?case
  proof (cases "is_high_impact row")
    case True
    have "scan_rows cur acc (row # rows) = scan_rows ?d (acc @ [?i]) rows"
      using True by (simp only: scan_rows_Cons if_True)
    also have "\<dots> = (acc @ [?i]) @ scan_rows ?d [] rows"
      by (rule Cons.IH)
    finally have left: "scan_rows cur acc (row # rows) = acc @ ?i # scan_rows ?d [] rows"
      by simp
    have "scan_rows cur [] (row # rows) = scan_rows ?d ([] @ [?i]) rows"
      using True by (simp only: scan_rows_Cons if_True)
    also have "\<dots> = ([] @ [?i]) @ scan_rows ?d [] rows"
      by (rule Cons.IH)
    finally have "scan_rows cur [] (row # rows) = ?i # scan_rows ?d [] rows"
      by simp
    with left show ?thesis by simp
  next
    case False
    have "scan_rows cur acc (row # rows) = scan_rows cur acc rows"
      using False by (simp only: scan_rows_Cons if_False)
    also have "\<dots> = acc @ scan_rows cur [] rows"
      by (rule Cons.IH)
    also have "scan_rows cur [] rows = scan_rows cur [] (row # rows)"
      using False by (simp only: scan_rows_Cons if_False)
    finally show ?thesis .
  qed
qed

lemma scan_rows_step:
  "scan_rows cur [] (row # rows) =
     (if is_high_impact row
      then make_item (carry cur row) row # scan_rows (carry cur row) [] rows
      else scan_rows cur [] rows)"
  using scan_rows_acc [of "carry cur row" "[make_item (carry cur row) row]" rows]
  by (simp only: scan_rows_Cons append_Nil append_Cons)

lemma scan_rows_append:
  "scan_rows cur [] (pre @ post) = scan_rows cur [] pre @ scan_rows (date_after cur pre) [] post"
proof (induction pre arbitrary: cur)
  case Nil
  show ?case by simp
next
  case (Cons row pre)
  show ?case
    using Cons.IH by (simp add: scan_rows_step del: scan_rows.simps(2))
qed

lemma length_scan_rows:
  "length (scan_rows cur [] rows) = length (filter is_high_impact rows)"
  by (induction rows arbitrary: cur) (simp_all add: scan_rows_step del: scan_rows.simps(2))

lemma date_after_snoc:
  "date_after cur (rows @ [row]) =
     (if is_high_impact row then carry (date_after cur rows) row else date_after cur rows)"
  by (induction rows arbitrary: cur) simp_all

lemma last_declared_snoc:
  "last_declared (rows @ [row]) =
     (case own_date row of None \<Rightarrow> last_declared rows | Some d \<Rightarrow> Some d)"
  by (auto simp: last_declared_def split: option.split)

lemma date_after_last_declared:
  "date_after cur rows =
     (case last_declared (filter is_high_impact rows) of None \<Rightarrow> cur | Some d \<Rightarrow> Some d)"
proof (induction rows rule: rev_induct)
  case Nil
  show ?case by (simp add: last_declared_def)
next
  case (snoc row rows)
  show ?case
    using snoc.IH
    by (simp add: date_after_snoc last_declared_snoc carry_def split: option.split)
qed

lemma scan_rows_nth:
  assumes "is_high_impact row"
  shows "scan_rows cur [] (pre @ row # post) ! length (filter is_high_impact pre)
           = make_item (date_after cur (pre @ [row])) row"
proof -
  have "scan_rows cur [] (pre @ row # post)
          = scan_rows cur [] pre
              @ make_item (carry (date_after cur pre) row) row
                  # scan_rows (carry (date_after cur pre) row) [] post"
    using assms by (simp add: scan_rows_append scan_rows_step del: scan_rows.simps)
  then show ?thesis
    using assms length_scan_rows [of cur pre]
    by (simp add: date_after_snoc nth_append del: scan_rows.simps)
qed


section \<open>Stripping\<close>

lemma rstrip_prefix: "\<exists>ws. s = rstrip s @ ws"
proof -
  have "rev (takeWhile is_space (rev s) @ dropWhile is_space (rev s)) = rev (rev s)"
    by (simp only: takeWhile_dropWhile_id)
  then have "s = rstrip s @ rev (takeWhile is_space (rev s))"
    by (simp only: rev_append rev_rev_ident rstrip_def)
  then show ?thesis ..
qed

lemma stripped_strip: "stripped (strip s)"
proof (cases "strip s = []")
  case True
  then show ?thesis by (simp add: stripped_def)
next
  case False
  let ?t = "lstrip s"
  obtain ws where t: "?t = strip s @ ws"
    using rstrip_prefix [of ?t] by (auto simp: strip_def)
  have "?t \<noteq> []" using t False by auto
  then have "\<not> is_space (hd ?t)"
    unfolding lstrip_def by (rule hd_dropWhile)
  moreover have "hd ?t = hd (strip s)"
    using t False by (metis hd_append2)
  ultimately have front: "\<not> is_space (hd (strip s))" by simp
  have ne: "dropWhile is_space (rev ?t) \<noteq> []"
    using False by (simp add: strip_def rstrip_def)
  have "last (strip s) = hd (dropWhile is_space (rev ?t))"
    using ne by (simp add: strip_def rstrip_def last_rev)
  moreover have "\<not> is_space (hd (dropWhile is_space (rev ?t)))"
    using ne by (rule hd_dropWhile)
  ultimately have "\<not> is_space (last (strip s))" by simp
  with front show ?thesis by (simp add: stripped_def)
qed

lemma strip_blank: "list_all is_space s \<Longrightarrow> strip s = []"
proof -
  assume "list_all is_space s"
  then have blank: "dropWhile is_space s = []"
    by (metis dropWhile_eq_Nil_conv list_all_iff)
  show ?thesis
    unfolding strip_def lstrip_def rstrip_def blank by simp
qed

lemma stripped_cell_text: "stripped (cell_text c row)"
proof (cases "find_first ''td'' c row")
  case None
  then have "cell_text c row = ''N/A''" by (simp add: cell_text_def)
  moreover have "stripped ''N/A''" by (simp add: stripped_def is_space_def)
  ultimately show ?thesis by simp
next
  case (Some cell)
  then show ?thesis by (simp add: cell_text_def stripped_strip)
qed

lemma stripped_carry:
  "(\<forall>d. cur = Some d \<longrightarrow> stripped d) \<Longrightarrow> carry cur row = Some d \<Longrightarrow> stripped d"
  by (auto simp: carry_def own_date_def stripped_strip split: option.splits if_splits)


section \<open>The events of a document\<close>

lemma scan_rows_filter_nth:
  "k < length (filter is_high_impact rows) \<Longrightarrow>
     \<exists>d. scan_rows cur [] rows ! k = make_item d (filter is_high_impact rows ! k)"
proof (induction rows arbitrary: cur k)
  case Nil
  then show ?case by simp
next
  case (Cons row rows)
  show ?case
  proof (cases "is_high_impact row")
    case False
    then show ?thesis
      using Cons by (simp add: scan_rows_step del: scan_rows.simps(2))
  next
    case True
    show ?thesis
    proof (cases k)
      case 0
      then show ?thesis
        using True by (auto simp: scan_rows_step simp del: scan_rows.simps(2))
    next
      case (Suc j)
      then have "j < length (filter is_high_impact rows)"
        using Cons.prems True by simp
      then obtain d where
        "scan_rows (carry cur row) [] rows ! j = make_item d (filter is_high_impact rows ! j)"
        using Cons.IH by blast
      then show ?thesis
        using True Suc by (auto simp: scan_rows_step simp del: scan_rows.simps(2))
    qed
  qed
qed

lemma is_high_impact_iff:
  "is_high_impact row \<longleftrightarrow>
     (\<exists>impact. find_first ''td'' ''impact'' row = Some impact
        \<and> py_in ''high'' (lower (decode impact)))"
  by (simp add: is_high_impact_def split: option.split)

lemma item_at_row:
  assumes "find_all ''tr'' ''calendar_row'' soup = pre @ row # post"
    and "is_high_impact row"
  shows "length (filter is_high_impact pre) < length (parse_calendar soup)"
    and "parse_calendar soup ! length (filter is_high_impact pre)
           = make_item (date_after None (pre @ [row])) row"
  using assms by (simp_all add: parse_calendar_def length_scan_rows scan_rows_nth del: scan_rows.simps(2))

text \<open>
  C1 (as amended). The event built from a high-impact row carries the date declared by the
  most recent high-impact row with a non-empty date cell at or before it in document
  order, whether or not its own row has a date cell. A row that is not high-impact is
  skipped and does not change the date that is carried.
\<close>

theorem date_carried_from_high_impact_rows:
  assumes rows: "find_all ''tr'' ''calendar_row'' soup = pre @ row # post"
    and high: "is_high_impact row"
    and declared: "last_declared (filter is_high_impact (pre @ [row])) = Some d"
  shows "length (filter is_high_impact pre) < length (parse_calendar soup)
         \<and> parse_calendar soup ! length (filter is_high_impact pre) = make_item (Some d) row
         \<and> date (parse_calendar soup ! length (filter is_high_impact pre)) = Some d"
proof -
  have "date_after None (pre @ [row]) = Some d"
    using declared by (simp only: date_after_last_declared option.case)
  then show ?thesis
    using item_at_row [OF rows high] by (simp add: make_item_def)
qed

text \<open>
  C2 (as amended). The events are, in order, the items built from the rows that have an
  impact cell whose markup (tag, attributes and content, as \<open>str\<close> gives it) contains
  "high" in any letter case; no other row produces an event.
\<close>

theorem high_impact_rows_become_events:
  "length (parse_calendar soup)
     = length (filter is_high_impact (find_all ''tr'' ''calendar_row'' soup))
   \<and> (\<forall>k < length (parse_calendar soup).
         \<exists>d. parse_calendar soup ! k
                = make_item d (filter is_high_impact (find_all ''tr'' ''calendar_row'' soup) ! k))
   \<and> (is_high_impact row \<longleftrightarrow>
         (\<exists>impact. find_first ''td'' ''impact'' row = Some impact
            \<and> py_in ''high'' (lower (decode impact))))"
  using scan_rows_filter_nth is_high_impact_iff
  by (simp add: parse_calendar_def length_scan_rows del: scan_rows.simps(2))


text \<open>
  The third row has no date cell and follows a low-impact row dated \<open>Jan 6\<close>; its event
  is dated \<open>Jan 5\<close>, from the first row.
\<close>

theorem date_carried_from_high_impact_rows_witness:
  "find_all ''tr'' ''calendar_row'' (document [payrolls_row, low_dated_row, undated_row])
     = [payrolls_row, low_dated_row] @ undated_row # []
   \<and> is_high_impact undated_row
   \<and> last_declared (filter is_high_impact ([payrolls_row, low_dated_row] @ [undated_row]))
       = Some ''Jan 5''
   \<and> date (parse_calendar (document [payrolls_row, low_dated_row, undated_row])
             ! length (filter is_high_impact [payrolls_row, low_dated_row])) = Some ''Jan 5''"
proof -
  have rows: "find_all ''tr'' ''calendar_row'' (document [payrolls_row, low_dated_row, undated_row])
                = [payrolls_row, low_dated_row] @ undated_row # []"
    by code_simp
  have high: "is_high_impact undated_row"
    by code_simp
  have declared:
    "last_declared (filter is_high_impact ([payrolls_row, low_dated_row] @ [undated_row]))
       = Some ''Jan 5''"
    by code_simp
  show ?thesis
    using rows high declared date_carried_from_high_impact_rows [OF rows high declared]
    by blast
qed

text \<open>
  C1 as stated fails on the same document: the most recent row with a date at or before
  the third row says \<open>Jan 6\<close>, and the event says \<open>Jan 5\<close>.
\<close>

theorem date_of_any_row_counterexample:
  "find_all ''tr'' ''calendar_row'' (document [payrolls_row, low_dated_row, undated_row])
     = [payrolls_row, low_dated_row, undated_row]
   \<and> last_declared [payrolls_row, low_dated_row, undated_row] = Some ''Jan 6''
   \<and> parse_calendar (document [payrolls_row, low_dated_row, undated_row]) ! 1
       = make_item (Some ''Jan 5'') undated_row
   \<and> date (parse_calendar (document [payrolls_row, low_dated_row, undated_row]) ! 1)
       \<noteq> last_declared [payrolls_row, low_dated_row, undated_row]"
  by code_simp

text \<open>Three rows, the second of low impact: two events, the second from the third row.\<close>

theorem high_impact_rows_become_events_witness:
  "length (parse_calendar (document [payrolls_row, low_dated_row, undated_row])) = 2
   \<and> (\<exists>d. parse_calendar (document [payrolls_row, low_dated_row, undated_row]) ! 1
              = make_item d undated_row)
   \<and> \<not> is_high_impact low_dated_row
   \<and> (\<exists>impact. find_first ''td'' ''impact'' undated_row = Some impact
          \<and> py_in ''high'' (lower (decode impact)))"
proof -
  let ?soup = "document [payrolls_row, low_dated_row, undated_row]"
  have rows: "filter is_high_impact (find_all ''tr'' ''calendar_row'' ?soup)
                = [payrolls_row, undated_row]"
    by code_simp
  have low: "\<not> is_high_impact low_dated_row"
    by code_simp
  have high: "is_high_impact undated_row"
    by code_simp
  have len: "length (parse_calendar ?soup) = 2"
    using high_impact_rows_become_events [of ?soup low_dated_row] rows by simp
  then have "(1::nat) < length (parse_calendar ?soup)"
    by simp
  then have "\<exists>d. parse_calendar ?soup ! 1 = make_item d undated_row"
    using high_impact_rows_become_events [of ?soup low_dated_row] rows by fastforce
  moreover have "\<exists>impact. find_first ''td'' ''impact'' undated_row = Some impact
          \<and> py_in ''high'' (lower (decode impact))"
    using high_impact_rows_become_events [of ?soup undated_row] high by blast
  ultimately show ?thesis using len low by blast
qed

text \<open>
  C2 as stated fails on the payrolls row: its impact cell has no text at all, only an
  icon whose title says "High", and the row still produces its event.
\<close>

theorem impact_text_counterexample:
  "find_all ''tr'' ''calendar_row'' (document [payrolls_row]) = [payrolls_row]
   \<and> find_first ''td'' ''impact'' payrolls_row = Some impact_high
   \<and> get_text impact_high = []
   \<and> \<not> impact_text_high payrolls_row
   \<and> parse_calendar (document [payrolls_row])
       = [\<lparr>date = Some ''Jan 5'', time = ''8:30am'', currency = ''USD'',
           event = ''Non-Farm Payrolls'', forecast = ''N/A'', previous = ''180K''\<rparr>]"
  by code_simp

section \<open>The fields of an event\<close>

lemma date_without_own:
  "own_date row = None \<Longrightarrow> is_high_impact row \<Longrightarrow>
     date_after None (pre @ [row])
       = (case last_declared (filter is_high_impact pre) of None \<Rightarrow> None | Some d \<Rightarrow> Some d)"
  by (simp add: date_after_last_declared last_declared_snoc)

lemma own_date_absent: "find_first ''td'' ''calendar__date'' row = None \<Longrightarrow> own_date row = None"
  by (simp add: own_date_def)

text \<open>
  C3 (as amended). On a high-impact row, each of the five columns time, currency, event,
  forecast and previous that is absent from the row gives the field the literal \<open>N/A\<close>.
  The date is not substituted: a row without a date cell takes the date carried from the
  high-impact rows before it.
\<close>

theorem absent_column_gets_sentinel:
  assumes rows: "find_all ''tr'' ''calendar_row'' soup = pre @ row # post"
    and high: "is_high_impact row"
    and item: "item = parse_calendar soup ! length (filter is_high_impact pre)"
  shows "(find_first ''td'' ''calendar__time'' row = None \<longrightarrow> time item = ''N/A'')
       \<and> (find_first ''td'' ''calendar__currency'' row = None \<longrightarrow> currency item = ''N/A'')
       \<and> (find_first ''td'' ''calendar__event'' row = None \<longrightarrow> event item = ''N/A'')
       \<and> (find_first ''td'' ''calendar__forecast'' row = None \<longrightarrow> forecast item = ''N/A'')
       \<and> (find_first ''td'' ''calendar__previous'' row = None \<longrightarrow> previous item = ''N/A'')
       \<and> (find_first ''td'' ''calendar__date'' row = None \<longrightarrow>
            (\<forall>d. last_declared (filter is_high_impact pre) = Some d \<longrightarrow> date item = Some d))"
proof -
  have it: "item = make_item (date_after None (pre @ [row])) row"
    using item_at_row(2) [OF rows high] item by simp
  have five: "find_first ''td'' c row = None \<Longrightarrow> cell_text c row = ''N/A''" for c
    by (simp add: cell_text_def)
  have dated: "date item = Some d"
    if "find_first ''td'' ''calendar__date'' row = None"
      and "last_declared (filter is_high_impact pre) = Some d" for d
    using date_without_own [OF own_date_absent [OF that(1)] high, of pre] that(2) it
    by (simp add: make_item_def)
  show ?thesis
    using five dated by (simp add: it make_item_def)
qed

text \<open>The payrolls row has no forecast cell, and its event says \<open>N/A\<close>.\<close>

theorem absent_column_gets_sentinel_witness:
  "find_all ''tr'' ''calendar_row'' (document [undated_row, payrolls_row])
     = [undated_row] @ payrolls_row # []
   \<and> is_high_impact payrolls_row
   \<and> find_first ''td'' ''calendar__forecast'' payrolls_row = None
   \<and> forecast (parse_calendar (document [undated_row, payrolls_row])
                 ! length (filter is_high_impact [undated_row])) = ''N/A''"
proof -
  have rows: "find_all ''tr'' ''calendar_row'' (document [undated_row, payrolls_row])
                = [undated_row] @ payrolls_row # []"
    by code_simp
  have high: "is_high_impact payrolls_row"
    by code_simp
  have absent: "find_first ''td'' ''calendar__forecast'' payrolls_row = None"
    by code_simp
  show ?thesis
    using rows high absent absent_column_gets_sentinel [OF rows high refl]
    by blast
qed

text \<open>
  C3 as stated fails for the date: the second row has no date cell, and its event is dated
  \<open>Jan 5\<close>, not \<open>N/A\<close>.
\<close>

theorem date_sentinel_counterexample:
  "find_all ''tr'' ''calendar_row'' (document [payrolls_row, undated_row])
     = [payrolls_row, undated_row]
   \<and> is_high_impact undated_row
   \<and> find_first ''td'' ''calendar__date'' undated_row = None
   \<and> date (parse_calendar (document [payrolls_row, undated_row]) ! 1) = Some ''Jan 5''
   \<and> date (parse_calendar (document [payrolls_row, undated_row]) ! 1) \<noteq> Some ''N/A''"
  by code_simp

text \<open>
  C9. On a high-impact row, a time, currency, event, forecast or previous cell that is
  present gives the field its stripped text; when that text is empty or white space only
  the field is the empty string, not \<open>N/A\<close>.
\<close>

theorem present_cell_keeps_its_text:
  assumes rows: "find_all ''tr'' ''calendar_row'' soup = pre @ row # post"
    and high: "is_high_impact row"
    and item: "item = parse_calendar soup ! length (filter is_high_impact pre)"
  shows "\<forall>(c, field) \<in> set columns. \<forall>cell. find_first ''td'' c row = Some cell \<longrightarrow>
           field item = strip (get_text cell)
           \<and> (list_all is_space (get_text cell) \<longrightarrow> field item = [] \<and> field item \<noteq> ''N/A'')"
proof -
  have it: "item = make_item (date_after None (pre @ [row])) row"
    using item_at_row(2) [OF rows high] item by simp
  have present: "find_first ''td'' c row = Some cell \<Longrightarrow> cell_text c row = strip (get_text cell)"
    for c cell
    by (simp add: cell_text_def)
  show ?thesis
    using present strip_blank by (simp add: it make_item_def columns_def)
qed

text \<open>The forecast cell of the undated row holds two spaces.\<close>

theorem present_cell_keeps_its_text_witness:
  "find_all ''tr'' ''calendar_row'' (document [payrolls_row, undated_row])
     = [payrolls_row] @ undated_row # []
   \<and> is_high_impact undated_row
   \<and> (''calendar__forecast'', forecast) \<in> set columns
   \<and> find_first ''td'' ''calendar__forecast'' undated_row = Some (td ''calendar__forecast'' ''  '')
   \<and> list_all is_space (get_text (td ''calendar__forecast'' ''  ''))
   \<and> forecast (parse_calendar (document [payrolls_row, undated_row])
                 ! length (filter is_high_impact [payrolls_row])) = []"
proof -
  have rows: "find_all ''tr'' ''calendar_row'' (document [payrolls_row, undated_row])
                = [payrolls_row] @ undated_row # []"
    by code_simp
  have high: "is_high_impact undated_row"
    by code_simp
  have col: "(''calendar__forecast'', forecast) \<in> set columns"
    by (simp add: columns_def)
  have cell: "find_first ''td'' ''calendar__forecast'' undated_row
                = Some (td ''calendar__forecast'' ''  '')"
    by code_simp
  have blank: "list_all is_space (get_text (td ''calendar__forecast'' ''  ''))"
    by code_simp
  show ?thesis
    using rows high col cell blank present_cell_keeps_its_text [OF rows high refl]
    by blast
qed

text \<open>
  Every date that enters \<open>current_date\<close> is stripped, so the dates of the items are.
\<close>

lemma scan_rows_stripped:
  assumes "\<forall>d. cur = Some d \<longrightarrow> stripped d"
    and "item \<in> set (scan_rows cur [] rows)"
  shows "stripped (time item) \<and> stripped (currency item) \<and> stripped (event item)
         \<and> stripped (forecast item) \<and> stripped (previous item)
         \<and> (\<forall>d. date item = Some d \<longrightarrow> stripped d)"
  using assms
proof (induction rows arbitrary: cur)
  case Nil
  then show ?case by simp
next
  case (Cons row rows)
  show ?case
  proof (cases "is_high_impact row")
    case False
    then have "item \<in> set (scan_rows cur [] rows)"
      using Cons.prems(2) by (simp add: scan_rows_step del: scan_rows.simps(2))
    then show ?thesis using Cons.IH Cons.prems(1) by blast
  next
    case True
    have next_ok: "\<forall>d. carry cur row = Some d \<longrightarrow> stripped d"
      using stripped_carry [OF Cons.prems(1)] by blast
    from True Cons.prems(2)
    consider "item = make_item (carry cur row) row"
      | "item \<in> set (scan_rows (carry cur row) [] rows)"
      by (auto simp: scan_rows_step simp del: scan_rows.simps(2))
    then show ?thesis
    proof cases
      case 1
      then show ?thesis
        using next_ok by (simp add: make_item_def stripped_cell_text)
    next
      case 2
      then show ?thesis using Cons.IH next_ok by blast
    qed
  qed
qed

text \<open>
  C10. No field of an event has white space at its start or at its end: the five cell
  texts and the date are stripped before they are stored, and \<open>N/A\<close> has none.
\<close>

theorem fields_are_stripped:
  "\<forall>item \<in> set (parse_calendar soup).
     stripped (time item) \<and> stripped (currency item) \<and> stripped (event item)
     \<and> stripped (forecast item) \<and> stripped (previous item)
     \<and> (\<forall>d. date item = Some d \<longrightarrow> stripped d)"
proof
  fix item
  assume "item \<in> set (parse_calendar soup)"
  then have "item \<in> set (scan_rows None [] (find_all ''tr'' ''calendar_row'' soup))"
    by (simp add: parse_calendar_def)
  then show "stripped (time item) \<and> stripped (currency item) \<and> stripped (event item)
     \<and> stripped (forecast item) \<and> stripped (previous item)
     \<and> (\<forall>d. date item = Some d \<longrightarrow> stripped d)"
    by (rule scan_rows_stripped [rotated]) simp
qed

text \<open>The time cell of the undated row is written with a space on each side.\<close>

theorem fields_are_stripped_witness:
  "make_item (Some ''Jan 5'') undated_row \<in> set (parse_calendar (document [payrolls_row, undated_row]))
   \<and> get_text (td ''calendar__time'' '' 10:00am '') = '' 10:00am ''
   \<and> time (make_item (Some ''Jan 5'') undated_row) = ''10:00am''
   \<and> stripped (time (make_item (Some ''Jan 5'') undated_row))
   \<and> stripped ''Jan 5''"
proof -
  have mem: "make_item (Some ''Jan 5'') undated_row
               \<in> set (parse_calendar (document [payrolls_row, undated_row]))"
    by code_simp
  have raw: "get_text (td ''calendar__time'' '' 10:00am '') = '' 10:00am ''"
    by code_simp
  have val: "time (make_item (Some ''Jan 5'') undated_row) = ''10:00am''"
    by code_simp
  have d: "date (make_item (Some ''Jan 5'') undated_row) = Some ''Jan 5''"
    by (simp add: make_item_def)
  show ?thesis
    using mem raw val d fields_are_stripped [THEN bspec, OF mem] by blast
qed

section \<open>The fetch and its failures\<close>

lemma parse_calendar_empty:
  "\<forall>row \<in> set (find_all ''tr'' ''calendar_row'' soup). \<not> is_high_impact row \<Longrightarrow>
     parse_calendar soup = []"
proof -
  assume "\<forall>row \<in> set (find_all ''tr'' ''calendar_row'' soup). \<not> is_high_impact row"
  then have "filter is_high_impact (find_all ''tr'' ''calendar_row'' soup) = []"
    by (simp add: filter_empty_conv)
  then have "length (parse_calendar soup) = 0"
    by (simp add: parse_calendar_def length_scan_rows)
  then show ?thesis by simp
qed

lemma fetch_and_parse_ok:
  assumes "config_get cfg ''forex_factory'' ''base_url'' = Inr url"
    and "requests_get url user_agent = Inr resp"
    and "\<not> (400 \<le> status_code resp \<and> status_code resp < 600)"
    and "BeautifulSoup (response_text resp) = Inr soup"
  shows "fetch_and_parse requests_get BeautifulSoup cfg user_agent = Inr (parse_calendar soup)"
  using assms by (simp add: fetch_and_parse_def raise_for_status_def)

lemma fetch_and_parse_request_error:
  assumes "config_get cfg ''forex_factory'' ''base_url'' = Inr url"
    and "requests_get url user_agent = Inl e"
  shows "fetch_and_parse requests_get BeautifulSoup cfg user_agent = Inl e"
  using assms by (simp add: fetch_and_parse_def)

lemma fetch_and_parse_status_error:
  assumes "config_get cfg ''forex_factory'' ''base_url'' = Inr url"
    and "requests_get url user_agent = Inr resp"
    and "400 \<le> status_code resp \<and> status_code resp < 600"
  shows "fetch_and_parse requests_get BeautifulSoup cfg user_agent
           = Inl (HTTPError (error_msg resp))"
  using assms by (simp add: fetch_and_parse_def raise_for_status_def)

lemma fetch_and_parse_parse_error:
  assumes "config_get cfg ''forex_factory'' ''base_url'' = Inr url"
    and "requests_get url user_agent = Inr resp"
    and "\<not> (400 \<le> status_code resp \<and> status_code resp < 600)"
    and "BeautifulSoup (response_text resp) = Inl e"
  shows "fetch_and_parse requests_get BeautifulSoup cfg user_agent = Inl e"
  using assms by (auto simp: fetch_and_parse_def raise_for_status_def)

lemma get_high_impact_news_caught:
  assumes "config_get cfg ''forex_factory'' ''user_agent'' = Inr user_agent"
    and "fetch_and_parse requests_get BeautifulSoup cfg user_agent = Inl e"
  shows "get_high_impact_news requests_get BeautifulSoup cfg
           = Inr ([''Error fetching forex data: '' @ str_exc e], [])"
  using assms by (simp add: get_high_impact_news_def)

text \<open>
  C4. The formatter turns the empty list into exactly
  \<open>No high-impact news events found.\<close>; a document with no high-impact row gives the
  empty list, so fetching such a page and formatting the result gives that string.
\<close>

theorem no_high_impact_rows_sentinel:
  "format_news_comment now [] = ''No high-impact news events found.''
   \<and> ((\<forall>row \<in> set (find_all ''tr'' ''calendar_row'' soup). \<not> is_high_impact row) \<longrightarrow>
        format_news_comment now (parse_calendar soup) = ''No high-impact news events found.'')
   \<and> ((\<forall>row \<in> set (find_all ''tr'' ''calendar_row'' soup). \<not> is_high_impact row)
        \<and> config_get cfg ''forex_factory'' ''user_agent'' = Inr user_agent
        \<and> config_get cfg ''forex_factory'' ''base_url'' = Inr url
        \<and> requests_get url user_agent = Inr resp
        \<and> \<not> (400 \<le> status_code resp \<and> status_code resp < 600)
        \<and> BeautifulSoup (response_text resp) = Inr soup \<longrightarrow>
        fetch_then_format requests_get BeautifulSoup cfg now
          = Inr ''No high-impact news events found.'')"
proof -
  have empty: "format_news_comment now [] = ''No high-impact news events found.''"
    by (simp add: format_news_comment_def)
  have quiet: "format_news_comment now (parse_calendar soup) = ''No high-impact news events found.''"
    if "\<forall>row \<in> set (find_all ''tr'' ''calendar_row'' soup). \<not> is_high_impact row"
    using parse_calendar_empty [OF that] empty by simp
  have pipeline: "fetch_then_format requests_get BeautifulSoup cfg now
          = Inr ''No high-impact news events found.''"
    if none: "\<forall>row \<in> set (find_all ''tr'' ''calendar_row'' soup). \<not> is_high_impact row"
      and agent: "config_get cfg ''forex_factory'' ''user_agent'' = Inr user_agent"
      and rest: "config_get cfg ''forex_factory'' ''base_url'' = Inr url"
        "requests_get url user_agent = Inr resp"
        "\<not> (400 \<le> status_code resp \<and> status_code resp < 600)"
        "BeautifulSoup (response_text resp) = Inr soup"
  proof -
    have "fetch_and_parse requests_get BeautifulSoup cfg user_agent = Inr []"
      using rest parse_calendar_empty [OF none] by (simp add: fetch_and_parse_ok)
    then have "get_high_impact_news requests_get BeautifulSoup cfg = Inr ([], [])"
      using agent by (simp add: get_high_impact_news_def)
    then show ?thesis
      using empty by (simp add: fetch_then_format_def)
  qed
  show ?thesis using empty quiet pipeline by blast
qed

text \<open>A page whose only row is of low impact, fetched with status 200.\<close>

theorem no_high_impact_rows_sentinel_witness:
  "find_all ''tr'' ''calendar_row'' (document [low_dated_row]) = [low_dated_row]
   \<and> \<not> is_high_impact low_dated_row
   \<and> config_get example_config ''forex_factory'' ''user_agent'' = Inr ''Mozilla/5.0''
   \<and> config_get example_config ''forex_factory'' ''base_url''
       = Inr ''https://www.forexfactory.com/calendar''
   \<and> requests_ok ''https://www.forexfactory.com/calendar'' ''Mozilla/5.0'' = Inr ok_response
   \<and> \<not> (400 \<le> status_code ok_response \<and> status_code ok_response < 600)
   \<and> soup_quiet_day (response_text ok_response) = Inr (document [low_dated_row])
   \<and> format_news_comment example_now (parse_calendar (document [low_dated_row]))
       = ''No high-impact news events found.''
   \<and> fetch_then_format requests_ok soup_quiet_day example_config example_now
       = Inr ''No high-impact news events found.''"
proof -
  have rows: "find_all ''tr'' ''calendar_row'' (document [low_dated_row]) = [low_dated_row]"
    by code_simp
  have low: "\<not> is_high_impact low_dated_row"
    by code_simp
  have none: "\<forall>row \<in> set (find_all ''tr'' ''calendar_row'' (document [low_dated_row])).
                \<not> is_high_impact row"
    using rows low by simp
  have agent: "config_get example_config ''forex_factory'' ''user_agent'' = Inr ''Mozilla/5.0''"
    by (simp add: config_get_def example_config_def)
  have url: "config_get example_config ''forex_factory'' ''base_url''
               = Inr ''https://www.forexfactory.com/calendar''"
    by (simp add: config_get_def example_config_def)
  have got: "requests_ok ''https://www.forexfactory.com/calendar'' ''Mozilla/5.0'' = Inr ok_response"
    by (simp add: requests_ok_def)
  have ok: "\<not> (400 \<le> status_code ok_response \<and> status_code ok_response < 600)"
    by (simp add: ok_response_def)
  have parsed: "soup_quiet_day (response_text ok_response) = Inr (document [low_dated_row])"
    by (simp add: soup_quiet_day_def)
  show ?thesis
    using rows low none agent url got ok parsed
      no_high_impact_rows_sentinel [of example_now "document [low_dated_row]" example_config
        "''Mozilla/5.0''" "''https://www.forexfactory.com/calendar''" requests_ok ok_response
        soup_quiet_day]
    by blast
qed

text \<open>
  C5 (as amended). Once the request headers have been built from the configured
  \<open>user_agent\<close>, the fetcher always returns. Every failure inside its \<open>try\<close> is
  caught, prints one diagnostic line and returns the empty list: a missing URL in the
  configuration, a failed request, a status from 400 to 599 (the ones
  \<open>raise_for_status\<close> rejects) and a parser exception. An answer with any other status
  is not a failure: its page is parsed and its events are returned.
\<close>

theorem fetch_errors_are_contained:
  assumes agent: "config_get cfg ''forex_factory'' ''user_agent'' = Inr user_agent"
  shows "(\<exists>printed news_items.
            get_high_impact_news requests_get BeautifulSoup cfg = Inr (printed, news_items))
    \<and> (\<forall>e. config_get cfg ''forex_factory'' ''base_url'' = Inl e \<longrightarrow>
          get_high_impact_news requests_get BeautifulSoup cfg
            = Inr ([''Error fetching forex data: '' @ str_exc e], []))
    \<and> (\<forall>url e. config_get cfg ''forex_factory'' ''base_url'' = Inr url
          \<and> requests_get url user_agent = Inl e \<longrightarrow>
          get_high_impact_news requests_get BeautifulSoup cfg
            = Inr ([''Error fetching forex data: '' @ str_exc e], []))
    \<and> (\<forall>url resp. config_get cfg ''forex_factory'' ''base_url'' = Inr url
          \<and> requests_get url user_agent = Inr resp
          \<and> 400 \<le> status_code resp \<and> status_code resp < 600 \<longrightarrow>
          get_high_impact_news requests_get BeautifulSoup cfg
            = Inr ([''Error fetching forex data: '' @ error_msg resp], []))
    \<and> (\<forall>url resp e. config_get cfg ''forex_factory'' ''base_url'' = Inr url
          \<and> requests_get url user_agent = Inr resp
          \<and> \<not> (400 \<le> status_code resp \<and> status_code resp < 600)
          \<and> BeautifulSoup (response_text resp) = Inl e \<longrightarrow>
          get_high_impact_news requests_get BeautifulSoup cfg
            = Inr ([''Error fetching forex data: '' @ str_exc e], []))
    \<and> (\<forall>url resp soup. config_get cfg ''forex_factory'' ''base_url'' = Inr url
          \<and> requests_get url user_agent = Inr resp
          \<and> \<not> (400 \<le> status_code resp \<and> status_code resp < 600)
          \<and> BeautifulSoup (response_text resp) = Inr soup \<longrightarrow>
          get_high_impact_news requests_get BeautifulSoup cfg = Inr ([], parse_calendar soup))"
proof -
  have returns: "\<exists>printed news_items.
      get_high_impact_news requests_get BeautifulSoup cfg = Inr (printed, news_items)"
    using agent by (simp add: get_high_impact_news_def split: sum.split)
  have no_url: "get_high_impact_news requests_get BeautifulSoup cfg
            = Inr ([''Error fetching forex data: '' @ str_exc e], [])"
    if "config_get cfg ''forex_factory'' ''base_url'' = Inl e" for e
    using that by (simp add: get_high_impact_news_caught [OF agent] fetch_and_parse_def)
  have request: "get_high_impact_news requests_get BeautifulSoup cfg
            = Inr ([''Error fetching forex data: '' @ str_exc e], [])"
    if "config_get cfg ''forex_factory'' ''base_url'' = Inr url"
      and "requests_get url user_agent = Inl e" for url e
    using that by (simp add: get_high_impact_news_caught [OF agent] fetch_and_parse_request_error)
  have status: "get_high_impact_news requests_get BeautifulSoup cfg
            = Inr ([''Error fetching forex data: '' @ error_msg resp], [])"
    if "config_get cfg ''forex_factory'' ''base_url'' = Inr url"
      and "requests_get url user_agent = Inr resp"
      and "400 \<le> status_code resp \<and> status_code resp < 600" for url resp
    using that by (simp add: get_high_impact_news_caught [OF agent] fetch_and_parse_status_error)
  have parse: "get_high_impact_news requests_get BeautifulSoup cfg
            = Inr ([''Error fetching forex data: '' @ str_exc e], [])"
    if "config_get cfg ''forex_factory'' ''base_url'' = Inr url"
      and "requests_get url user_agent = Inr resp"
      and "\<not> (400 \<le> status_code resp \<and> status_code resp < 600)"
      and "BeautifulSoup (response_text resp) = Inl e" for url resp e
    using that by (simp add: get_high_impact_news_caught [OF agent] fetch_and_parse_parse_error)
  have passes: "get_high_impact_news requests_get BeautifulSoup cfg
            = Inr ([], parse_calendar soup)"
    if "config_get cfg ''forex_factory'' ''base_url'' = Inr url"
      and "requests_get url user_agent = Inr resp"
      and "\<not> (400 \<le> status_code resp \<and> status_code resp < 600)"
      and "BeautifulSoup (response_text resp) = Inr soup" for url resp soup
    using that agent by (simp add: get_high_impact_news_def fetch_and_parse_ok)
  show ?thesis
    using returns no_url request status parse passes by blast
qed

text \<open>
  A refused connection, a status 500, a rejected page, and a status 304 whose page is
  parsed.
\<close>

theorem fetch_errors_are_contained_witness:
  "config_get example_config ''forex_factory'' ''user_agent'' = Inr ''Mozilla/5.0''
   \<and> get_high_impact_news requests_refused soup_quiet_day example_config
       = Inr ([''Error fetching forex data: Connection refused''], [])
   \<and> get_high_impact_news requests_server_error soup_quiet_day example_config
       = Inr ([''Error fetching forex data: 500 Server Error: Internal Server Error for url: https://www.forexfactory.com/calendar''], [])
   \<and> get_high_impact_news requests_ok soup_rejected example_config
       = Inr ([''Error fetching forex data: markup rejected''], [])
   \<and> get_high_impact_news requests_not_modified soup_payrolls example_config
       = Inr ([], parse_calendar (document [payrolls_row]))"
proof -
  let ?url = "''https://www.forexfactory.com/calendar''"
  have agent: "config_get example_config ''forex_factory'' ''user_agent'' = Inr ''Mozilla/5.0''"
    by (simp add: config_get_def example_config_def)
  have url: "config_get example_config ''forex_factory'' ''base_url'' = Inr ?url"
    by (simp add: config_get_def example_config_def)
  have refused: "requests_refused ?url ''Mozilla/5.0'' = Inl (RequestException ''Connection refused'')"
    by (simp add: requests_refused_def)
  have failed: "requests_server_error ?url ''Mozilla/5.0'' = Inr server_error_response"
    "400 \<le> status_code server_error_response \<and> status_code server_error_response < 600"
    by (simp_all add: requests_server_error_def server_error_response_def)
  have rejected: "requests_ok ?url ''Mozilla/5.0'' = Inr ok_response"
    "\<not> (400 \<le> status_code ok_response \<and> status_code ok_response < 600)"
    "soup_rejected (response_text ok_response) = Inl (ParserRejectedMarkup ''markup rejected'')"
    by (simp_all add: requests_ok_def ok_response_def soup_rejected_def)
  have passed: "requests_not_modified ?url ''Mozilla/5.0'' = Inr not_modified_response"
    "\<not> (400 \<le> status_code not_modified_response \<and> status_code not_modified_response < 600)"
    "soup_payrolls (response_text not_modified_response) = Inr (document [payrolls_row])"
    by (simp_all add: requests_not_modified_def not_modified_response_def soup_payrolls_def)
  have "get_high_impact_news requests_refused soup_quiet_day example_config
          = Inr ([''Error fetching forex data: '' @ str_exc (RequestException ''Connection refused'')], [])"
    using fetch_errors_are_contained [OF agent, of requests_refused soup_quiet_day] url refused
    by blast
  moreover have "get_high_impact_news requests_server_error soup_quiet_day example_config
          = Inr ([''Error fetching forex data: '' @ error_msg server_error_response], [])"
    using fetch_errors_are_contained [OF agent, of requests_server_error soup_quiet_day] url failed
    by blast
  moreover have "get_high_impact_news requests_ok soup_rejected example_config
          = Inr ([''Error fetching forex data: '' @ str_exc (ParserRejectedMarkup ''markup rejected'')], [])"
    using fetch_errors_are_contained [OF agent, of requests_ok soup_rejected] url rejected
    by blast
  moreover have "get_high_impact_news requests_not_modified soup_payrolls example_config
          = Inr ([], parse_calendar (document [payrolls_row]))"
    using fetch_errors_are_contained [OF agent, of requests_not_modified soup_payrolls] url passed
    by blast
  ultimately show ?thesis
    using agent by (simp add: server_error_response_def)
qed

text \<open>
  C5 as stated fails twice. Without the \<open>user_agent\<close> setting the lookup that builds
  the headers, which stands before the \<open>try\<close>, raises \<open>KeyError\<close> out of the fetcher.
  And a status 304, which is not a success, prints nothing and returns the event of its
  page.
\<close>

theorem fetch_containment_counterexample:
  "get_high_impact_news requests_ok soup_quiet_day config_without_agent
     = Inl (KeyError ''user_agent'')
   \<and> status_code not_modified_response = 304
   \<and> get_high_impact_news requests_not_modified soup_payrolls example_config
       = Inr ([], [\<lparr>date = Some ''Jan 5'', time = ''8:30am'', currency = ''USD'',
                     event = ''Non-Farm Payrolls'', forecast = ''N/A'',
                     previous = ''180K''\<rparr>])"
proof -
  have "config_get config_without_agent ''forex_factory'' ''user_agent''
          = Inl (KeyError ''user_agent'')"
    by (simp add: config_get_def config_without_agent_def)
  then have escapes: "get_high_impact_news requests_ok soup_quiet_day config_without_agent
     = Inl (KeyError ''user_agent'')"
    by (simp add: get_high_impact_news_def)
  have status: "status_code not_modified_response = 304"
    by (simp add: not_modified_response_def)
  have agent: "config_get example_config ''forex_factory'' ''user_agent'' = Inr ''Mozilla/5.0''"
    and url: "config_get example_config ''forex_factory'' ''base_url''
                = Inr ''https://www.forexfactory.com/calendar''"
    by (simp_all add: config_get_def example_config_def)
  have page: "parse_calendar (document [payrolls_row])
                = [\<lparr>date = Some ''Jan 5'', time = ''8:30am'', currency = ''USD'',
                    event = ''Non-Farm Payrolls'', forecast = ''N/A'',
                    previous = ''180K''\<rparr>]"
    by code_simp
  have "fetch_and_parse requests_not_modified soup_payrolls example_config ''Mozilla/5.0''
          = Inr (parse_calendar (document [payrolls_row]))"
    using url
    by (simp add: fetch_and_parse_def raise_for_status_def requests_not_modified_def
          not_modified_response_def soup_payrolls_def)
  then have "get_high_impact_news requests_not_modified soup_payrolls example_config
               = Inr ([], parse_calendar (document [payrolls_row]))"
    using agent by (simp add: get_high_impact_news_def)
  then show ?thesis
    using escapes status page by simp
qed

section \<open>The rendered comment\<close>

lemma append_items_concat:
  "append_items acc items = acc @ concat (map (\<lambda>item. table_row item @ newline) items)"
  by (induction items arbitrary: acc) (simp_all add: table_row_def)

lemma digit_table: "list_all (\<lambda>m. is_digit (char_of (48 + m))) [0..<10]"
  by code_simp

lemma is_digit_digit: "is_digit (digit n)"
proof -
  have "n mod 10 \<in> set [0..<10]" by simp
  then show ?thesis
    using digit_table unfolding digit_def list_all_iff by blast
qed

lemma is_digit_not_newline: "is_digit c \<Longrightarrow> c \<noteq> CHR 0x0A"
  by (auto simp: is_digit_def)

lemma strftime_shape: "ymd_hms_shape (strftime now)"
  by (simp add: ymd_hms_shape_def strftime_def zero_pad2_def zero_pad4_def is_digit_digit)

lemma digit_not_newline: "digit n \<noteq> CHR 0x0A"
  by (rule is_digit_not_newline) (rule is_digit_digit)

lemma strftime_single_line: "CHR 0x0A \<notin> set (strftime now)"
  using digit_not_newline [symmetric]
  by (simp add: strftime_def zero_pad2_def zero_pad4_def)

lemma split_lines_line:
  "CHR 0x0A \<notin> set l \<Longrightarrow> split_lines (l @ CHR 0x0A # rest) = l # split_lines rest"
  by (induction l) auto

lemma split_lines_last: "CHR 0x0A \<notin> set l \<Longrightarrow> split_lines l = [l]"
  by (induction l) auto

lemma split_lines_rows:
  "list_all single_line items \<Longrightarrow>
     split_lines (concat (map (\<lambda>item. table_row item @ newline) items) @ rest)
       = map table_row items @ split_lines rest"
  by (induction items) (simp_all add: single_line_def newline_def split_lines_line)


text \<open>
  C7. For a list of events that is not empty, the comment is the level-1 heading, an
  empty line, the header row with the six columns Date, Time, Currency, Event, Forecast,
  Previous, the separator row, one row per event in the order of the list, an empty line
  and the line \<open>Last updated: \<close> followed by the time as \<open>YYYY-MM-DD HH:MM:SS\<close>. The
  last part reads the same structure line by line, for events whose fields hold no line
  break.
\<close>

theorem comment_structure:
  assumes some: "news_items \<noteq> []"
    and clock: "valid_datetime now"
  shows "format_news_comment now news_items
           = ''# High Impact Forex News Events'' @ newline @ newline
               @ ''| Date | Time | Currency | Event | Forecast | Previous |'' @ newline
               @ ''|------|------|----------|--------|----------|----------|'' @ newline
               @ concat (map (\<lambda>item. table_row item @ newline) news_items)
               @ newline @ ''Last updated: '' @ strftime now
       \<and> ymd_hms_shape (strftime now)
       \<and> (list_all single_line news_items \<longrightarrow>
            split_lines (format_news_comment now news_items)
              = [''# High Impact Forex News Events'', [],
                 ''| Date | Time | Currency | Event | Forecast | Previous |'',
                 ''|------|------|----------|--------|----------|----------|'']
                @ map table_row news_items
                @ [[], ''Last updated: '' @ strftime now])"
proof -
  have whole: "format_news_comment now news_items
           = ''# High Impact Forex News Events'' @ newline @ newline
               @ ''| Date | Time | Currency | Event | Forecast | Previous |'' @ newline
               @ ''|------|------|----------|--------|----------|----------|'' @ newline
               @ concat (map (\<lambda>item. table_row item @ newline) news_items)
               @ newline @ ''Last updated: '' @ strftime now"
    using some by (simp add: format_news_comment_def append_items_concat)
  have foot: "split_lines (newline @ ''Last updated: '' @ strftime now)
                = [[], ''Last updated: '' @ strftime now]"
    using split_lines_last [of "''Last updated: '' @ strftime now"] strftime_single_line [of now]
    by (simp add: newline_def)
  have lines: "split_lines (format_news_comment now news_items)
              = [''# High Impact Forex News Events'', [],
                 ''| Date | Time | Currency | Event | Forecast | Previous |'',
                 ''|------|------|----------|--------|----------|----------|'']
                @ map table_row news_items
                @ [[], ''Last updated: '' @ strftime now]"
    if "list_all single_line news_items"
  proof -
    have "split_lines (concat (map (\<lambda>item. table_row item @ newline) news_items)
                         @ newline @ ''Last updated: '' @ strftime now)
            = map table_row news_items @ [[], ''Last updated: '' @ strftime now]"
      using split_lines_rows [OF that] foot by simp
    then show ?thesis
      unfolding whole by (simp add: newline_def)
  qed
  show ?thesis
    using whole strftime_shape lines by blast
qed

text \<open>The two events of the payrolls row and of the undated row, on 5 January 2024.\<close>

theorem comment_structure_witness:
  "parse_calendar (document [payrolls_row, undated_row]) \<noteq> []
   \<and> valid_datetime example_now
   \<and> list_all single_line (parse_calendar (document [payrolls_row, undated_row]))
   \<and> strftime example_now = ''2024-01-05 09:03:07''
   \<and> split_lines (format_news_comment example_now
                     (parse_calendar (document [payrolls_row, undated_row])))
       = [''# High Impact Forex News Events'', [],
          ''| Date | Time | Currency | Event | Forecast | Previous |'',
          ''|------|------|----------|--------|----------|----------|'',
          ''| Jan 5 | 8:30am | USD | Non-Farm Payrolls | N/A | 180K |'',
          ''| Jan 5 | 10:00am | USD | ISM Services PMI |  | 52.1 |'',
          [], ''Last updated: 2024-01-05 09:03:07'']"
proof -
  let ?items = "parse_calendar (document [payrolls_row, undated_row])"
  have some: "?items \<noteq> []"
    by code_simp
  have clock: "valid_datetime example_now"
    by code_simp
  have single: "list_all single_line ?items"
    by code_simp
  have stamp: "strftime example_now = ''2024-01-05 09:03:07''"
    by code_simp
  have rows: "map table_row ?items
                = [''| Jan 5 | 8:30am | USD | Non-Farm Payrolls | N/A | 180K |'',
                   ''| Jan 5 | 10:00am | USD | ISM Services PMI |  | 52.1 |'']"
    by code_simp
  have "split_lines (format_news_comment example_now ?items)
          = [''# High Impact Forex News Events'', [],
             ''| Date | Time | Currency | Event | Forecast | Previous |'',
             ''|------|------|----------|--------|----------|----------|'']
            @ map table_row ?items
            @ [[], ''Last updated: '' @ strftime example_now]"
    using comment_structure [OF some clock] single by blast
  then show ?thesis
    using some clock single stamp rows by simp
qed

section \<open>The update of the card\<close>

text \<open>
  With the name configured, each search loop is \<open>find\<close>: it returns the first element
  whose name equals the configured one.
\<close>

lemma find_list_find:
  "config_get cfg ''trello'' ''list_name'' = Inr n \<Longrightarrow>
     find_list cfg lsts = Inr (find (\<lambda>l. list_name l = n) lsts)"
  by (induction lsts) simp_all

lemma find_card_find:
  "config_get cfg ''trello'' ''card_name'' = Inr n \<Longrightarrow>
     find_card cfg cards = Inr (find (\<lambda>c. card_name c = n) cards)"
  by (induction cards) simp_all

lemma find_at_first_index:
  "i < length xs \<Longrightarrow> P (xs ! i) \<Longrightarrow> \<forall>j<i. \<not> P (xs ! j) \<Longrightarrow> find P xs = Some (xs ! i)"
  by (auto simp: find_Some_iff)

lemma find_nowhere: "\<forall>x \<in> set xs. \<not> P x \<Longrightarrow> find P xs = None"
  by (simp add: find_None_iff)

lemma update_body_no_board:
  assumes "config_get cfg ''trello'' ''board_id'' = Inr bid"
    and "get_board trello bid = Inl e"
  shows "update_body trello cfg comment_text = Inl e"
  using assms by (simp add: update_body_def)

lemma update_body_no_lists:
  assumes "config_get cfg ''trello'' ''board_id'' = Inr bid"
    and "get_board trello bid = Inr brd"
    and "list_lists trello brd = Inl e"
  shows "update_body trello cfg comment_text = Inl e"
  using assms by (simp add: update_body_def)

lemma update_body_list_not_found:
  assumes "config_get cfg ''trello'' ''board_id'' = Inr bid"
    and "get_board trello bid = Inr brd"
    and "list_lists trello brd = Inr lsts"
    and "config_get cfg ''trello'' ''list_name'' = Inr ln"
    and "find (\<lambda>l. list_name l = ln) lsts = None"
  shows "update_body trello cfg comment_text = Inl (Exception (not_found ''List'' ln))"
  using assms by (simp add: update_body_def find_list_find)

lemma update_body_list_found:
  assumes "config_get cfg ''trello'' ''board_id'' = Inr bid"
    and "get_board trello bid = Inr brd"
    and "list_lists trello brd = Inr lsts"
    and "config_get cfg ''trello'' ''list_name'' = Inr ln"
    and "find (\<lambda>l. list_name l = ln) lsts = Some lst"
  shows "update_body trello cfg comment_text =
     (case list_cards trello lst of
        Inl e \<Rightarrow> Inl e
      | Inr cards \<Rightarrow>
          (case find_card cfg cards of
             Inl e \<Rightarrow> Inl e
           | Inr None \<Rightarrow>
               (case config_get cfg ''trello'' ''card_name'' of
                  Inl e \<Rightarrow> Inl e
                | Inr n \<Rightarrow> Inl (Exception (not_found ''Card'' n)))
           | Inr (Some c) \<Rightarrow>
               (case comment trello c comment_text of
                  Inl e \<Rightarrow> Inl e
                | Inr _ \<Rightarrow>
                    Inr [Comment c comment_text,
                         Print ''Successfully updated Trello card with forex news''])))"
  using assms by (simp add: update_body_def find_list_find)

lemma update_trello_card_caught:
  "update_body trello cfg comment_text = Inl e \<Longrightarrow>
     update_trello_card trello cfg comment_text
       = Inr [Print (''Error updating Trello card: '' @ str_exc e)]"
  by (simp add: update_trello_card_def)

lemma update_trello_card_done:
  "update_body trello cfg comment_text = Inr effects \<Longrightarrow>
     update_trello_card trello cfg comment_text = Inr effects"
  by (simp add: update_trello_card_def)

text \<open>
  C6. The updater always returns. Whatever is raised inside it is caught and printed as
  one diagnostic line, and nothing is posted: when the board cannot be retrieved, when
  its lists or the cards of the list cannot be read, when no list or no card has the
  configured name (the line then names the configured list or card), and when the
  service refuses the comment.
\<close>

theorem update_errors_are_contained:
  "(\<exists>effects. update_trello_card trello cfg comment_text = Inr effects)
   \<and> (\<forall>e. update_body trello cfg comment_text = Inl e \<longrightarrow>
         update_trello_card trello cfg comment_text
           = Inr [Print (''Error updating Trello card: '' @ str_exc e)])
   \<and> (\<forall>bid e. config_get cfg ''trello'' ''board_id'' = Inr bid
         \<and> get_board trello bid = Inl e \<longrightarrow>
         update_trello_card trello cfg comment_text
           = Inr [Print (''Error updating Trello card: '' @ str_exc e)])
   \<and> (\<forall>bid brd e. config_get cfg ''trello'' ''board_id'' = Inr bid
         \<and> get_board trello bid = Inr brd \<and> list_lists trello brd = Inl e \<longrightarrow>
         update_trello_card trello cfg comment_text
           = Inr [Print (''Error updating Trello card: '' @ str_exc e)])
   \<and> (\<forall>bid brd lsts ln. config_get cfg ''trello'' ''board_id'' = Inr bid
         \<and> get_board trello bid = Inr brd \<and> list_lists trello brd = Inr lsts
         \<and> config_get cfg ''trello'' ''list_name'' = Inr ln
         \<and> (\<forall>l \<in> set lsts. list_name l \<noteq> ln) \<longrightarrow>
         update_trello_card trello cfg comment_text
           = Inr [Print (''Error updating Trello card: '' @ not_found ''List'' ln)])
   \<and> (\<forall>bid brd lsts ln lst. config_get cfg ''trello'' ''board_id'' = Inr bid
         \<and> get_board trello bid = Inr brd \<and> list_lists trello brd = Inr lsts
         \<and> config_get cfg ''trello'' ''list_name'' = Inr ln
         \<and> find (\<lambda>l. list_name l = ln) lsts = Some lst \<longrightarrow>
         (\<forall>e. list_cards trello lst = Inl e \<longrightarrow>
            update_trello_card trello cfg comment_text
              = Inr [Print (''Error updating Trello card: '' @ str_exc e)])
       \<and> (\<forall>cards cn. list_cards trello lst = Inr cards
            \<and> config_get cfg ''trello'' ''card_name'' = Inr cn
            \<and> (\<forall>c \<in> set cards. card_name c \<noteq> cn) \<longrightarrow>
            update_trello_card trello cfg comment_text
              = Inr [Print (''Error updating Trello card: '' @ not_found ''Card'' cn)])
       \<and> (\<forall>cards cn c e. list_cards trello lst = Inr cards
            \<and> config_get cfg ''trello'' ''card_name'' = Inr cn
            \<and> find (\<lambda>c. card_name c = cn) cards = Some c
            \<and> comment trello c comment_text = Inl e \<longrightarrow>
            update_trello_card trello cfg comment_text
              = Inr [Print (''Error updating Trello card: '' @ str_exc e)]))"
proof -
  have returns: "\<exists>effects. update_trello_card trello cfg comment_text = Inr effects"
    by (simp add: update_trello_card_def split: sum.split)
  have no_board: "update_trello_card trello cfg comment_text
           = Inr [Print (''Error updating Trello card: '' @ str_exc e)]"
    if "config_get cfg ''trello'' ''board_id'' = Inr bid" "get_board trello bid = Inl e"
    for bid e
    using that by (simp add: update_trello_card_caught update_body_no_board)
  have no_lists: "update_trello_card trello cfg comment_text
           = Inr [Print (''Error updating Trello card: '' @ str_exc e)]"
    if "config_get cfg ''trello'' ''board_id'' = Inr bid" "get_board trello bid = Inr brd"
      "list_lists trello brd = Inl e"
    for bid brd e
    using that by (simp add: update_trello_card_caught update_body_no_lists)
  have no_list: "update_trello_card trello cfg comment_text
           = Inr [Print (''Error updating Trello card: '' @ not_found ''List'' ln)]"
    if "config_get cfg ''trello'' ''board_id'' = Inr bid" "get_board trello bid = Inr brd"
      "list_lists trello brd = Inr lsts" "config_get cfg ''trello'' ''list_name'' = Inr ln"
      "\<forall>l \<in> set lsts. list_name l \<noteq> ln"
    for bid brd lsts ln
  proof -
    have "find (\<lambda>l. list_name l = ln) lsts = None"
      using that(5) by (simp add: find_None_iff)
    then have "update_body trello cfg comment_text = Inl (Exception (not_found ''List'' ln))"
      using that(1-4) by (simp add: update_body_list_not_found)
    then show ?thesis by (simp add: update_trello_card_caught)
  qed
  have found: "(\<forall>e. list_cards trello lst = Inl e \<longrightarrow>
            update_trello_card trello cfg comment_text
              = Inr [Print (''Error updating Trello card: '' @ str_exc e)])
       \<and> (\<forall>cards cn. list_cards trello lst = Inr cards
            \<and> config_get cfg ''trello'' ''card_name'' = Inr cn
            \<and> (\<forall>c \<in> set cards. card_name c \<noteq> cn) \<longrightarrow>
            update_trello_card trello cfg comment_text
              = Inr [Print (''Error updating Trello card: '' @ not_found ''Card'' cn)])
       \<and> (\<forall>cards cn c e. list_cards trello lst = Inr cards
            \<and> config_get cfg ''trello'' ''card_name'' = Inr cn
            \<and> find (\<lambda>c. card_name c = cn) cards = Some c
            \<and> comment trello c comment_text = Inl e \<longrightarrow>
            update_trello_card trello cfg comment_text
              = Inr [Print (''Error updating Trello card: '' @ str_exc e)])"
    if "config_get cfg ''trello'' ''board_id'' = Inr bid" "get_board trello bid = Inr brd"
      "list_lists trello brd = Inr lsts" "config_get cfg ''trello'' ''list_name'' = Inr ln"
      "find (\<lambda>l. list_name l = ln) lsts = Some lst"
    for bid brd lsts ln lst
  proof (intro conjI allI impI)
    fix e
    assume "list_cards trello lst = Inl e"
    then have "update_body trello cfg comment_text = Inl e"
      using that by (simp add: update_body_list_found)
    then show "update_trello_card trello cfg comment_text
              = Inr [Print (''Error updating Trello card: '' @ str_exc e)]"
      by (rule update_trello_card_caught)
  next
    fix cards cn
    assume a: "list_cards trello lst = Inr cards
            \<and> config_get cfg ''trello'' ''card_name'' = Inr cn
            \<and> (\<forall>c \<in> set cards. card_name c \<noteq> cn)"
    then have "find (\<lambda>c. card_name c = cn) cards = None"
      by (simp add: find_None_iff)
    then have "update_body trello cfg comment_text = Inl (Exception (not_found ''Card'' cn))"
      using that a by (simp add: update_body_list_found find_card_find)
    then show "update_trello_card trello cfg comment_text
              = Inr [Print (''Error updating Trello card: '' @ not_found ''Card'' cn)]"
      by (simp add: update_trello_card_caught)
  next
    fix cards cn c e
    assume a: "list_cards trello lst = Inr cards
            \<and> config_get cfg ''trello'' ''card_name'' = Inr cn
            \<and> find (\<lambda>c. card_name c = cn) cards = Some c
            \<and> comment trello c comment_text = Inl e"
    then have "update_body trello cfg comment_text = Inl e"
      using that by (simp add: update_body_list_found find_card_find)
    then show "update_trello_card trello cfg comment_text
              = Inr [Print (''Error updating Trello card: '' @ str_exc e)]"
      by (rule update_trello_card_caught)
  qed
  show ?thesis
    apply (intro conjI)
    subgoal by (rule returns)
    subgoal by (simp add: update_trello_card_caught)
    subgoal using no_board by blast
    subgoal using no_lists by blast
    subgoal using no_list by blast
    subgoal using found by blast
    done
qed

text \<open>
  A board that cannot be retrieved, a board without the list, a list without the card and
  a refused comment.
\<close>

theorem update_errors_are_contained_witness:
  "update_trello_card trello_without_board example_config ''No high-impact news events found.''
     = Inr [Print ''Error updating Trello card: 401 unauthorized'']
   \<and> update_trello_card trello_without_list example_config ''No high-impact news events found.''
     = Inr [Print (''Error updating Trello card: List '' @ [CHR 0x27] @ ''News'' @ [CHR 0x27]
                    @ '' not found'')]
   \<and> update_trello_card trello_without_card example_config ''No high-impact news events found.''
     = Inr [Print (''Error updating Trello card: Card '' @ [CHR 0x27] @ ''Forex'' @ [CHR 0x27]
                    @ '' not found'')]
   \<and> update_trello_card trello_refusing example_config ''No high-impact news events found.''
     = Inr [Print ''Error updating Trello card: 503 service unavailable'']"
proof -
  let ?text = "''No high-impact news events found.''"
  have bid: "config_get example_config ''trello'' ''board_id'' = Inr ''b1''"
    and ln: "config_get example_config ''trello'' ''list_name'' = Inr ''News''"
    and cn: "config_get example_config ''trello'' ''card_name'' = Inr ''Forex''"
    by (simp_all add: config_get_def example_config_def)
  have sel: "find (\<lambda>l. list_name l = ''News'') [inbox_list, news_list, second_news_list]
               = Some news_list"
    by (simp add: inbox_list_def news_list_def)
  have "config_get example_config ''trello'' ''board_id'' = Inr ''b1''
          \<and> get_board trello_without_board ''b1'' = Inl (ResourceUnavailable ''401 unauthorized'')"
    using bid by (simp add: trello_without_board_def board_unavailable_def)
  then have one: "update_trello_card trello_without_board example_config ?text
      = Inr [Print (''Error updating Trello card: ''
                      @ str_exc (ResourceUnavailable ''401 unauthorized''))]"
    by (rule update_errors_are_contained
               [THEN conjunct2, THEN conjunct2, THEN conjunct1, rule_format])
  have "config_get example_config ''trello'' ''board_id'' = Inr ''b1''
          \<and> get_board trello_without_list ''b1'' = Inr example_board
          \<and> list_lists trello_without_list example_board = Inr [inbox_list]
          \<and> config_get example_config ''trello'' ''list_name'' = Inr ''News''
          \<and> (\<forall>l \<in> set [inbox_list]. list_name l \<noteq> ''News'')"
    using bid ln
    by (simp add: trello_without_list_def board_found_def lists_without_news_def inbox_list_def)
  then have two: "update_trello_card trello_without_list example_config ?text
      = Inr [Print (''Error updating Trello card: '' @ not_found ''List'' ''News'')]"
    by (rule update_errors_are_contained
               [THEN conjunct2, THEN conjunct2, THEN conjunct2, THEN conjunct2, THEN conjunct1,
                rule_format])
  have found3: "config_get example_config ''trello'' ''board_id'' = Inr ''b1''
          \<and> get_board trello_without_card ''b1'' = Inr example_board
          \<and> list_lists trello_without_card example_board
              = Inr [inbox_list, news_list, second_news_list]
          \<and> config_get example_config ''trello'' ''list_name'' = Inr ''News''
          \<and> find (\<lambda>l. list_name l = ''News'') [inbox_list, news_list, second_news_list]
              = Some news_list"
    using bid ln sel by (simp add: trello_without_card_def board_found_def lists_of_board_def)
  have "list_cards trello_without_card news_list = Inr [crypto_card]
          \<and> config_get example_config ''trello'' ''card_name'' = Inr ''Forex''
          \<and> (\<forall>c \<in> set [crypto_card]. card_name c \<noteq> ''Forex'')"
    using cn by (simp add: trello_without_card_def cards_without_forex_def crypto_card_def)
  then have three: "update_trello_card trello_without_card example_config ?text
      = Inr [Print (''Error updating Trello card: '' @ not_found ''Card'' ''Forex'')]"
    by (rule update_errors_are_contained
               [THEN conjunct2, THEN conjunct2, THEN conjunct2, THEN conjunct2, THEN conjunct2,
                rule_format, OF found3, THEN conjunct2, THEN conjunct1, rule_format])
  have found4: "config_get example_config ''trello'' ''board_id'' = Inr ''b1''
          \<and> get_board trello_refusing ''b1'' = Inr example_board
          \<and> list_lists trello_refusing example_board
              = Inr [inbox_list, news_list, second_news_list]
          \<and> config_get example_config ''trello'' ''list_name'' = Inr ''News''
          \<and> find (\<lambda>l. list_name l = ''News'') [inbox_list, news_list, second_news_list]
              = Some news_list"
    using bid ln sel by (simp add: trello_refusing_def board_found_def lists_of_board_def)
  have "list_cards trello_refusing news_list = Inr [crypto_card, forex_card, second_forex_card]
          \<and> config_get example_config ''trello'' ''card_name'' = Inr ''Forex''
          \<and> find (\<lambda>c. card_name c = ''Forex'') [crypto_card, forex_card, second_forex_card]
              = Some forex_card
          \<and> comment trello_refusing forex_card ?text
              = Inl (ResourceUnavailable ''503 service unavailable'')"
    using cn
    by (simp add: trello_refusing_def cards_of_list_def news_list_def crypto_card_def
          forex_card_def comment_refused_def)
  then have four: "update_trello_card trello_refusing example_config ?text
      = Inr [Print (''Error updating Trello card: ''
                      @ str_exc (ResourceUnavailable ''503 service unavailable''))]"
    by (rule update_errors_are_contained
               [THEN conjunct2, THEN conjunct2, THEN conjunct2, THEN conjunct2, THEN conjunct2,
                rule_format, OF found4, THEN conjunct2, THEN conjunct2, rule_format])
  show ?thesis
    using one two three four by (simp add: not_found_def)
qed

text \<open>
  C8. The list selected is the first one of the board whose name equals the configured
  list name, and the comment goes to the first card of that list whose name equals the
  configured card name. When no list has the name, or no card of the selected list has,
  the only effect is the line that reports it, and no comment is posted.
\<close>

theorem first_exact_match_selected:
  assumes bid: "config_get cfg ''trello'' ''board_id'' = Inr bid"
    and ln: "config_get cfg ''trello'' ''list_name'' = Inr ln"
    and cn: "config_get cfg ''trello'' ''card_name'' = Inr cn"
    and brd: "get_board trello bid = Inr brd"
    and lsts: "list_lists trello brd = Inr lsts"
  shows "((\<forall>l \<in> set lsts. list_name l \<noteq> ln) \<longrightarrow>
            update_trello_card trello cfg comment_text
              = Inr [Print (''Error updating Trello card: '' @ not_found ''List'' ln)])
    \<and> (\<forall>i < length lsts. list_name (lsts ! i) = ln \<and> (\<forall>j<i. list_name (lsts ! j) \<noteq> ln) \<longrightarrow>
         (\<forall>cards. list_cards trello (lsts ! i) = Inr cards \<longrightarrow>
            ((\<forall>c \<in> set cards. card_name c \<noteq> cn) \<longrightarrow>
               update_trello_card trello cfg comment_text
                 = Inr [Print (''Error updating Trello card: '' @ not_found ''Card'' cn)])
          \<and> (\<forall>k < length cards. card_name (cards ! k) = cn
                 \<and> (\<forall>j<k. card_name (cards ! j) \<noteq> cn)
                 \<and> comment trello (cards ! k) comment_text = Inr () \<longrightarrow>
               update_trello_card trello cfg comment_text
                 = Inr [Comment (cards ! k) comment_text,
                        Print ''Successfully updated Trello card with forex news''])))"
proof (intro conjI allI impI)
  assume "\<forall>l \<in> set lsts. list_name l \<noteq> ln"
  then have "find (\<lambda>l. list_name l = ln) lsts = None"
    by (simp add: find_None_iff)
  then have "update_body trello cfg comment_text = Inl (Exception (not_found ''List'' ln))"
    using bid brd lsts ln by (simp add: update_body_list_not_found)
  then show "update_trello_card trello cfg comment_text
              = Inr [Print (''Error updating Trello card: '' @ not_found ''List'' ln)]"
    by (simp add: update_trello_card_caught)
next
  fix i cards
  assume i: "i < length lsts"
    and first: "list_name (lsts ! i) = ln \<and> (\<forall>j<i. list_name (lsts ! j) \<noteq> ln)"
    and cards: "list_cards trello (lsts ! i) = Inr cards"
    and none: "\<forall>c \<in> set cards. card_name c \<noteq> cn"
  have sel: "find (\<lambda>l. list_name l = ln) lsts = Some (lsts ! i)"
    using i first by (simp add: find_at_first_index)
  have "find (\<lambda>c. card_name c = cn) cards = None"
    using none by (simp add: find_None_iff)
  then have "update_body trello cfg comment_text = Inl (Exception (not_found ''Card'' cn))"
    using update_body_list_found [OF bid brd lsts ln sel] cards cn
    by (simp add: find_card_find)
  then show "update_trello_card trello cfg comment_text
                 = Inr [Print (''Error updating Trello card: '' @ not_found ''Card'' cn)]"
    by (simp add: update_trello_card_caught)
next
  fix i cards k
  assume i: "i < length lsts"
    and first: "list_name (lsts ! i) = ln \<and> (\<forall>j<i. list_name (lsts ! j) \<noteq> ln)"
    and cards: "list_cards trello (lsts ! i) = Inr cards"
    and k: "k < length cards"
    and card: "card_name (cards ! k) = cn \<and> (\<forall>j<k. card_name (cards ! j) \<noteq> cn)
                 \<and> comment trello (cards ! k) comment_text = Inr ()"
  have sel: "find (\<lambda>l. list_name l = ln) lsts = Some (lsts ! i)"
    using i first by (simp add: find_at_first_index)
  have "find (\<lambda>c. card_name c = cn) cards = Some (cards ! k)"
    using k card by (simp add: find_at_first_index)
  then have "update_body trello cfg comment_text
               = Inr [Comment (cards ! k) comment_text,
                      Print ''Successfully updated Trello card with forex news'']"
    using update_body_list_found [OF bid brd lsts ln sel] cards cn card
    by (simp add: find_card_find)
  then show "update_trello_card trello cfg comment_text
                 = Inr [Comment (cards ! k) comment_text,
                        Print ''Successfully updated Trello card with forex news'']"
    by (rule update_trello_card_done)
qed

text \<open>
  Two lists are named \<open>News\<close> and two cards \<open>Forex\<close>: the comment goes to the first
  card of the first list.
\<close>

theorem first_exact_match_selected_witness:
  "[inbox_list, news_list, second_news_list] ! 1 = news_list
   \<and> list_name second_news_list = list_name news_list
   \<and> news_list \<noteq> second_news_list
   \<and> [crypto_card, forex_card, second_forex_card] ! 1 = forex_card
   \<and> card_name second_forex_card = card_name forex_card
   \<and> forex_card \<noteq> second_forex_card
   \<and> update_trello_card example_trello example_config ''No high-impact news events found.''
       = Inr [Comment forex_card ''No high-impact news events found.'',
              Print ''Successfully updated Trello card with forex news'']
   \<and> update_trello_card trello_without_list example_config ''No high-impact news events found.''
       = Inr [Print (''Error updating Trello card: List '' @ [CHR 0x27] @ ''News'' @ [CHR 0x27]
                      @ '' not found'')]
   \<and> update_trello_card trello_without_card example_config ''No high-impact news events found.''
       = Inr [Print (''Error updating Trello card: Card '' @ [CHR 0x27] @ ''Forex'' @ [CHR 0x27]
                      @ '' not found'')]"
proof -
  let ?text = "''No high-impact news events found.''"
  let ?lsts = "[inbox_list, news_list, second_news_list]"
  let ?cards = "[crypto_card, forex_card, second_forex_card]"
  have bid: "config_get example_config ''trello'' ''board_id'' = Inr ''b1''"
    and ln: "config_get example_config ''trello'' ''list_name'' = Inr ''News''"
    and cn: "config_get example_config ''trello'' ''card_name'' = Inr ''Forex''"
    by (simp_all add: config_get_def example_config_def)
  have shape: "?lsts ! 1 = news_list" "list_name second_news_list = list_name news_list"
    "news_list \<noteq> second_news_list" "?cards ! 1 = forex_card"
    "card_name second_forex_card = card_name forex_card" "forex_card \<noteq> second_forex_card"
    by (simp_all add: news_list_def second_news_list_def forex_card_def second_forex_card_def)
  have first_list: "list_name (?lsts ! 1) = ''News'' \<and> (\<forall>j<1. list_name (?lsts ! j) \<noteq> ''News'')"
    by (simp add: inbox_list_def news_list_def)
  have first_card: "card_name (?cards ! 1) = ''Forex''
      \<and> (\<forall>j<1. card_name (?cards ! j) \<noteq> ''Forex'')
      \<and> comment example_trello (?cards ! 1) ?text = Inr ()"
    by (simp add: crypto_card_def forex_card_def example_trello_def comment_accepted_def)
  have brd: "get_board example_trello ''b1'' = Inr example_board"
    and lsts: "list_lists example_trello example_board = Inr ?lsts"
    and cards: "list_cards example_trello (?lsts ! 1) = Inr ?cards"
    by (simp_all add: example_trello_def board_found_def lists_of_board_def cards_of_list_def
          news_list_def)
  have "update_trello_card example_trello example_config ?text
          = Inr [Comment (?cards ! 1) ?text,
                 Print ''Successfully updated Trello card with forex news'']"
    by (rule first_exact_match_selected [OF bid ln cn brd lsts, THEN conjunct2, rule_format,
                of 1 ?cards, THEN conjunct2, rule_format, of 1])
       (simp_all only: first_list first_card cards, simp_all add: inbox_list_def crypto_card_def)
  then have posted: "update_trello_card example_trello example_config ?text
          = Inr [Comment forex_card ?text,
                 Print ''Successfully updated Trello card with forex news'']"
    by simp
  have brd2: "get_board trello_without_list ''b1'' = Inr example_board"
    and lsts2: "list_lists trello_without_list example_board = Inr [inbox_list]"
    by (simp_all add: trello_without_list_def board_found_def lists_without_news_def)
  have "\<forall>l \<in> set [inbox_list]. list_name l \<noteq> ''News''"
    by (simp add: inbox_list_def)
  then have no_list: "update_trello_card trello_without_list example_config ?text
      = Inr [Print (''Error updating Trello card: '' @ not_found ''List'' ''News'')]"
    by (rule first_exact_match_selected [OF bid ln cn brd2 lsts2, THEN conjunct1, THEN mp])
  have brd3: "get_board trello_without_card ''b1'' = Inr example_board"
    and lsts3: "list_lists trello_without_card example_board = Inr ?lsts"
    and cards3: "list_cards trello_without_card (?lsts ! 1) = Inr [crypto_card]"
    by (simp_all add: trello_without_card_def board_found_def lists_of_board_def
          cards_without_forex_def)
  have none3: "\<forall>c \<in> set [crypto_card]. card_name c \<noteq> ''Forex''"
    by (simp add: crypto_card_def)
  have "update_trello_card trello_without_card example_config ?text
      = Inr [Print (''Error updating Trello card: '' @ not_found ''Card'' ''Forex'')]"
    by (rule first_exact_match_selected [OF bid ln cn brd3 lsts3, THEN conjunct2, rule_format,
                of 1 "[crypto_card]", THEN conjunct1, rule_format])
       (simp_all only: first_list cards3 none3, simp_all add: inbox_list_def crypto_card_def)
  then show ?thesis
    using shape posted no_list by (simp add: not_found_def)
qed

end
